theory Spec2Isabelle
  imports Complex_Main "HOL-Library.Word"
begin

chapter \<open>Screen Recorder Pro: capture session, upload client, recordings routes\<close>

section \<open>Capture session (the \<open>ScreenRecorder\<close> component)\<close>

subsection \<open>Data\<close>

type_synonym byte = "8 word"

text \<open>A \<open>Blob\<close>: its bytes and its declared type; \<open>size\<close> is the number of bytes.\<close>

record blob =
  blob_data :: "byte list"
  blob_type :: string

definition blob_size :: "blob \<Rightarrow> nat" where
  "blob_size b = length (blob_data b)"

text \<open>\<open>new Blob(parts, { type })\<close> concatenates the parts in array order.\<close>

definition new_Blob :: "blob list \<Rightarrow> string \<Rightarrow> blob" where
  "new_Blob parts ty = \<lparr>blob_data = concat (map blob_data parts), blob_type = ty\<rparr>"

text \<open>Media tracks. A display stream always carries the video track and may carry the
  display audio; the microphone stream carries one audio track; the destination node of
  the audio graph exposes one mixed audio track.\<close>

datatype track = DisplayVideoTrack | DisplayAudioTrack | MicAudioTrack | MixedAudioTrack

type_synonym MediaStream = "track list"

fun getVideoTracks :: "MediaStream \<Rightarrow> track list" where
  "getVideoTracks s = filter (\<lambda>t. t = DisplayVideoTrack) s"

fun getAudioTracks :: "MediaStream \<Rightarrow> track list" where
  "getAudioTracks s = filter (\<lambda>t. t \<noteq> DisplayVideoTrack) s"

text \<open>The audio graph: every branch is a stream source feeding a gain node that is
  connected to the single destination node (\<open>source.connect(gain); gain.connect(destination)\<close>).\<close>

datatype audio_source = DisplaySource | MicSource

record gain_branch =
  branch_source :: audio_source
  branch_gain :: real

record AudioContext =
  branches :: "gain_branch list"

datatype recorder_state = Inactive | Recording

record MediaRecorder =
  mr_stream :: MediaStream
  mr_mimeType :: string
  mr_state :: recorder_state

text \<open>\<open>interface RecordingState\<close> (the value held by \<open>useState\<close>).\<close>

record RecordingState =
  isRecording :: bool
  isPaused :: bool
  recordedBlob :: "blob option"
  recordingTime :: nat
  stream :: "MediaStream option"

text \<open>The component instance: the hook state, the refs, and the tracks that have been
  stopped so far. \<open>timerRef\<close> tells whether the interval is set (Start is offered only
  while the state is not recording, so there is one interval at a time).\<close>

record Component =
  state :: RecordingState
  micEnabled :: bool
  error :: "string option"
  mediaRecorderRef :: "MediaRecorder option"
  chunksRef :: "blob list"
  timerRef :: bool
  audioContextRef :: "AudioContext option"
  stoppedTracks :: "track list"

text \<open>The values of the first render: \<open>useState\<close> initial values and empty refs.\<close>

definition initialState :: RecordingState where
  "initialState = \<lparr>isRecording = False, isPaused = False, recordedBlob = None,
     recordingTime = 0, stream = None\<rparr>"

definition mount :: Component where
  "mount = \<lparr>state = initialState, micEnabled = True, error = None,
     mediaRecorderRef = None, chunksRef = [], timerRef = False,
     audioContextRef = None, stoppedTracks = []\<rparr>"

subsection \<open>Fragments: \<open>mediaRecorder.ondataavailable\<close> and \<open>mediaRecorder.onstop\<close>\<close>

text \<open>\<open>ondataavailable\<close>: a fragment of positive size is pushed onto \<open>chunksRef.current\<close>;
  an empty one is only logged.\<close>

definition ondataavailable :: "blob \<Rightarrow> Component \<Rightarrow> Component" where
  "ondataavailable d c =
     (if blob_size d > 0 then c\<lparr>chunksRef := chunksRef c @ [d]\<rparr> else c)"

definition stopTimer :: "Component \<Rightarrow> Component" where
  "stopTimer c = (if timerRef c then c\<lparr>timerRef := False\<rparr> else c)"

definition closeAudioContext :: "Component \<Rightarrow> Component" where
  "closeAudioContext c =
     (if audioContextRef c \<noteq> None then c\<lparr>audioContextRef := None\<rparr> else c)"

text \<open>\<open>onstop\<close>, with the \<open>mimeType\<close> its closure holds. The blob is built from the
  collected chunks and stored in the state unconditionally; only then is its size
  inspected. With a non-empty blob the preview is scheduled by \<open>setTimeout\<close> and nothing
  else changes synchronously; with an empty blob the error text is set.\<close>

definition empty_capture_message :: string where
  "empty_capture_message = ''Recording completed but no data was captured. Please try again.''"

definition onstop :: "string \<Rightarrow> Component \<Rightarrow> Component" where
  "onstop mimeType c =
     (let b = new_Blob (chunksRef c) mimeType;
          c1 = c\<lparr>state := (state c)\<lparr>recordedBlob := Some b, isRecording := False\<rparr>\<rparr>;
          c2 = (if blob_size b > 0 then c1 else c1\<lparr>error := Some empty_capture_message\<rparr>)
      in closeAudioContext (stopTimer c2))"

text \<open>Fragments delivered one after the other, in the order the callback fires.\<close>

definition deliver :: "blob list \<Rightarrow> Component \<Rightarrow> Component" where
  "deliver frags c = foldl (\<lambda>c' d. ondataavailable d c') c frags"

subsection \<open>\<open>stopRecording\<close> and the one-second timer\<close>

text \<open>\<open>stopRecording\<close> is an ordinary closure created by each render: the \<open>state\<close> it
  reads is the value of the render that created it, while the refs are shared and current.
  The parameter \<open>captured\<close> is that render's \<open>state\<close>. When the guard holds the recorder is
  stopped (its \<open>stop\<close> event arrives later and runs \<open>onstop\<close>), the tracks of the captured
  stream are stopped, \<open>stream\<close> is set to \<open>null\<close>, the timer is cleared and the audio
  context is closed; otherwise nothing happens.\<close>

definition stopRecording :: "RecordingState \<Rightarrow> Component \<Rightarrow> Component" where
  "stopRecording captured c =
     (if mediaRecorderRef c \<noteq> None \<and> isRecording captured then
        let c1 = c\<lparr>mediaRecorderRef :=
                     map_option (\<lambda>r. r\<lparr>mr_state := Inactive\<rparr>) (mediaRecorderRef c)\<rparr>;
            c2 = (case stream captured of
                    None \<Rightarrow> c1
                  | Some s \<Rightarrow> c1\<lparr>stoppedTracks := stoppedTracks c1 @ s\<rparr>);
            c3 = c2\<lparr>state := (state c2)\<lparr>stream := None\<rparr>\<rparr>
        in closeAudioContext (stopTimer c3)
      else c)"

text \<open>The interval callback of \<open>startTimer\<close>: the state updater. At 180 or more it calls
  \<open>stopRecording\<close> and returns \<open>prev\<close>; below, it adds one second.\<close>

definition timer_callback :: "RecordingState \<Rightarrow> Component \<Rightarrow> Component" where
  "timer_callback captured c =
     (if recordingTime (state c) \<ge> 180 then stopRecording captured c
      else c\<lparr>state := (state c)\<lparr>recordingTime := recordingTime (state c) + 1\<rparr>\<rparr>)"

text \<open>\<open>startTimer\<close> is \<open>useCallback(..., [])\<close>: with the empty dependency list every render
  receives the function object made by the first render, and the \<open>stopRecording\<close> named in
  its body is the first render's closure, whose \<open>state\<close> is the initial value of
  \<open>useState\<close>. A tick happens only while the interval is set.\<close>

definition tick :: "Component \<Rightarrow> Component" where
  "tick c = (if timerRef c then timer_callback initialState c else c)"

definition ticks :: "nat \<Rightarrow> Component \<Rightarrow> Component" where
  "ticks n c = (tick ^^ n) c"

text \<open>The Stop button is rendered with \<open>onClick={stopRecording}\<close> of the current render.\<close>

definition clickStop :: "Component \<Rightarrow> Component" where
  "clickStop c = stopRecording (state c) c"

subsection \<open>\<open>startRecording\<close>\<close>

text \<open>A thrown value: an \<open>Error\<close> with its \<open>name\<close> and \<open>message\<close>, or something that is
  not an \<open>Error\<close> instance.\<close>

datatype js_error = JsError string string | NonError

text \<open>\<open>getDisplayMedia\<close> is asked for video, so the stream it resolves with has the video
  track; it may or may not carry display audio.\<close>

datatype display_stream = DisplayStream bool

fun tracks :: "display_stream \<Rightarrow> MediaStream" where
  "tracks (DisplayStream withAudio) =
     DisplayVideoTrack # (if withAudio then [DisplayAudioTrack] else [])"

text \<open>What the browser answers: the display request, the microphone request (\<open>None\<close>:
  granted) and \<open>MediaRecorder.isTypeSupported\<close>.\<close>

record Env =
  getDisplayMedia :: "js_error + display_stream"
  getUserMedia :: "js_error option"
  isTypeSupported :: "string \<Rightarrow> bool"

definition start_failure_message :: "js_error \<Rightarrow> string" where
  "start_failure_message e =
     ''Failed to start recording. '' @
     (case e of
        JsError name message \<Rightarrow>
          (if name = ''NotAllowedError'' then ''Please grant screen sharing permissions.''
           else if name = ''NotFoundError'' then ''No screen sharing source available.''
           else if name = ''NotSupportedError''
             then ''Screen recording is not supported in this browser.''
           else message)
      | NonError \<Rightarrow> [])"

definition mic_denied_message :: string where
  "mic_denied_message = ''Microphone access denied. Recording system audio only.''"

text \<open>The body of the inner \<open>try\<close> after the microphone stream was obtained: the audio
  context, one gain branch for the display audio (only if the display stream has an audio
  track) at 0.7, one for the microphone at 1.0, and the stream made of the display's video
  track and the destination's audio track.\<close>

definition mixAudio :: "display_stream \<Rightarrow> Component \<Rightarrow> MediaStream \<times> Component" where
  "mixAudio displayStream c =
     (let displayBranch =
            (if length (getAudioTracks (tracks displayStream)) > 0
             then [\<lparr>branch_source = DisplaySource, branch_gain = 0.7\<rparr>] else []);
          micBranch = [\<lparr>branch_source = MicSource, branch_gain = 1.0\<rparr>];
          audioContext = \<lparr>branches = displayBranch @ micBranch\<rparr>
      in (getVideoTracks (tracks displayStream) @ [MixedAudioTrack],
          c\<lparr>audioContextRef := Some audioContext\<rparr>))"

definition selectMimeType :: "(string \<Rightarrow> bool) \<Rightarrow> string" where
  "selectMimeType supported =
     (if supported ''video/webm;codecs=vp9,opus'' then ''video/webm;codecs=vp9,opus''
      else if supported ''video/webm;codecs=vp8,opus'' then ''video/webm;codecs=vp8,opus''
      else ''video/webm'')"

text \<open>\<open>startRecording\<close>. A rejected display request is caught by the outer \<open>catch\<close>, which
  only sets the error text. A rejected microphone request is caught by the inner \<open>catch\<close>:
  the warning is set and \<open>finalStream\<close> stays the display stream. The \<open>MediaRecorder\<close>
  constructor throws \<open>NotSupportedError\<close> for a type the browser cannot record, which the
  outer \<open>catch\<close> reports as well.\<close>

definition startRecording :: "Env \<Rightarrow> Component \<Rightarrow> Component" where
  "startRecording env c =
     (let c0 = c\<lparr>error := None\<rparr> in
      case getDisplayMedia env of
        Inl e \<Rightarrow> c0\<lparr>error := Some (start_failure_message e)\<rparr>
      | Inr displayStream \<Rightarrow>
          let (finalStream, c1) =
                (if micEnabled c0 then
                   (case getUserMedia env of
                      Some micError \<Rightarrow> (tracks displayStream, c0\<lparr>error := Some mic_denied_message\<rparr>)
                    | None \<Rightarrow> mixAudio displayStream c0)
                 else (tracks displayStream, c0));
              mimeType = selectMimeType (isTypeSupported env)
          in if \<not> isTypeSupported env mimeType
             then c1\<lparr>error := Some (start_failure_message (JsError ''NotSupportedError'' []))\<rparr>
             else c1\<lparr>chunksRef := [],
                    mediaRecorderRef := Some \<lparr>mr_stream = finalStream, mr_mimeType = mimeType,
                                              mr_state = Recording\<rparr>,
                    state := (state c1)\<lparr>isRecording := True, recordingTime := 0,
                                         stream := Some finalStream, recordedBlob := None\<rparr>,
                    timerRef := True\<rparr>)"

text \<open>A browser that grants both requests, with display audio, and records every type.\<close>

definition grantingEnv :: Env where
  "grantingEnv = \<lparr>getDisplayMedia = Inr (DisplayStream True), getUserMedia = None,
     isTypeSupported = (\<lambda>t. True)\<rparr>"

section \<open>Numbers and strings of the runtime\<close>

text \<open>A number that is either \<open>NaN\<close> or an integer. Integers are exact here; the runtime's
  are exact up to \<open>2^53\<close>, far above any length the routes accept.\<close>

datatype js_number = NaN | Num int

fun js_add :: "js_number \<Rightarrow> js_number \<Rightarrow> js_number" where
  "js_add (Num a) (Num b) = Num (a + b)"
| "js_add _ _ = NaN"

fun js_sub :: "js_number \<Rightarrow> js_number \<Rightarrow> js_number" where
  "js_sub (Num a) (Num b) = Num (a - b)"
| "js_sub _ _ = NaN"

text \<open>White space as \<open>parseInt\<close> and \<open>trim\<close> skip it: the ASCII blanks and the
  no-break space (a character is a code unit below 256 here).\<close>

definition is_space :: "char \<Rightarrow> bool" where
  "is_space ch =
     (ch \<in> set [CHR '' '', CHR 0x09, CHR 0x0A, CHR 0x0B, CHR 0x0C, CHR 0x0D, CHR 0xA0])"

definition is_digit :: "char \<Rightarrow> bool" where
  "is_digit ch = (ch \<in> set ''0123456789'')"

definition is_hex_digit :: "char \<Rightarrow> bool" where
  "is_hex_digit ch = (ch \<in> set ''0123456789abcdefABCDEF'')"

definition digit_val :: "char \<Rightarrow> nat" where
  "digit_val ch =
     (if is_digit ch then of_char ch - 48
      else if ch \<in> set ''abcdef'' then of_char ch - 87
      else of_char ch - 55)"

text \<open>The sign and the rest, after leading white space: the common start of both forms of
  \<open>parseInt\<close>.\<close>

definition sign_and_rest :: "string \<Rightarrow> bool \<times> string" where
  "sign_and_rest s =
     (let t = dropWhile is_space s in
      case t of
        [] \<Rightarrow> (False, [])
      | ch # r \<Rightarrow> if ch = CHR ''-'' then (True, r) else if ch = CHR ''+'' then (False, r)
                 else (False, t))"

definition digits_value :: "nat \<Rightarrow> string \<Rightarrow> nat" where
  "digits_value radix ds = foldl (\<lambda>a ch. radix * a + digit_val ch) 0 ds"

definition signed :: "bool \<Rightarrow> nat \<Rightarrow> js_number" where
  "signed neg n = Num (if neg then - int n else int n)"

text \<open>\<open>Number.parseInt(s, 10)\<close>: the longest run of decimal digits after the sign; \<open>NaN\<close>
  when there is none.\<close>

definition parseInt10 :: "string \<Rightarrow> js_number" where
  "parseInt10 s =
     (let (neg, u) = sign_and_rest s; ds = takeWhile is_digit u
      in if ds = [] then NaN else signed neg (digits_value 10 ds))"

text \<open>\<open>Number.parseInt(s)\<close> with no radix: a \<open>0x\<close> or \<open>0X\<close> prefix selects base 16.\<close>

definition parseInt :: "string \<Rightarrow> js_number" where
  "parseInt s =
     (let (neg, u) = sign_and_rest s in
      if take 2 u = ''0x'' \<or> take 2 u = ''0X''
      then (let ds = takeWhile is_hex_digit (drop 2 u)
            in if ds = [] then NaN else signed neg (digits_value 16 ds))
      else (let ds = takeWhile is_digit u
            in if ds = [] then NaN else signed neg (digits_value 10 ds)))"

fun show_nat :: "nat \<Rightarrow> string" where
  "show_nat n = (if n < 10 then [''0123456789'' ! n]
                 else show_nat (n div 10) @ [''0123456789'' ! (n mod 10)])"

definition show_number :: "js_number \<Rightarrow> string" where
  "show_number x =
     (case x of
        NaN \<Rightarrow> ''NaN''
      | Num i \<Rightarrow> if i < 0 then CHR ''-'' # show_nat (nat (- i)) else show_nat (nat i))"

text \<open>\<open>s.split(sep)\<close> for a one-character separator, \<open>s.replace(pat, rep)\<close> for a literal
  pattern (the first occurrence only), \<open>s.includes(sub)\<close>, \<open>s.startsWith(p)\<close> and
  \<open>s.trim()\<close>.\<close>

fun split_on :: "char \<Rightarrow> string \<Rightarrow> string list" where
  "split_on sep [] = [[]]"
| "split_on sep (ch # cs) =
     (if ch = sep then [] # split_on sep cs
      else (case split_on sep cs of [] \<Rightarrow> [[ch]] | p # ps \<Rightarrow> (ch # p) # ps))"

fun replace_first :: "string \<Rightarrow> string \<Rightarrow> string \<Rightarrow> string" where
  "replace_first pat rep [] = (if pat = [] then rep else [])"
| "replace_first pat rep (ch # cs) =
     (if take (length pat) (ch # cs) = pat then rep @ drop (length pat) (ch # cs)
      else ch # replace_first pat rep cs)"

fun str_includes :: "string \<Rightarrow> string \<Rightarrow> bool" where
  "str_includes [] sub = (sub = [])"
| "str_includes (ch # cs) sub = (take (length sub) (ch # cs) = sub \<or> str_includes cs sub)"

definition startsWith :: "string \<Rightarrow> string \<Rightarrow> bool" where
  "startsWith s p = (take (length p) s = p)"

definition trim :: "string \<Rightarrow> string" where
  "trim s = rev (dropWhile is_space (rev (dropWhile is_space s)))"

section \<open>Upload client (the \<open>FileUpload\<close> component)\<close>

datatype upload_status = Pending | Uploading | Success | Error

text \<open>The browser \<open>File\<close>: name, type and content (\<open>size\<close> is the content's length).\<close>

record File =
  file_name :: string
  file_type :: string
  file_bytes :: "byte list"

text \<open>\<open>interface UploadFile\<close>.\<close>

record UploadFile =
  uf_id :: string
  uf_file :: File
  progress :: nat
  status :: upload_status
  upload_error :: "string option"
  retryCount :: nat

text \<open>The three state updates of \<open>uploadFile\<close>, each a \<open>map\<close> over the list that touches
  the item with the given id only.\<close>

definition markUploading :: "string \<Rightarrow> UploadFile list \<Rightarrow> UploadFile list" where
  "markUploading i fs =
     map (\<lambda>f. if uf_id f = i
              then f\<lparr>status := Uploading, progress := 0, upload_error := None\<rparr> else f) fs"

definition markSuccess :: "string \<Rightarrow> UploadFile list \<Rightarrow> UploadFile list" where
  "markSuccess i fs =
     map (\<lambda>f. if uf_id f = i then f\<lparr>status := Success, progress := 100\<rparr> else f) fs"

definition markError :: "string \<Rightarrow> string \<Rightarrow> UploadFile list \<Rightarrow> UploadFile list" where
  "markError i errorMessage fs =
     map (\<lambda>f. if uf_id f = i
              then f\<lparr>status := Error, upload_error := Some errorMessage,
                     retryCount := retryCount f + 1\<rparr> else f) fs"

text \<open>\<open>uploadFile\<close>, up to the point where it returns: the item is marked as uploading,
  then the \<open>try\<close> block builds the form, registers the listeners, opens and sends the
  request. \<open>thrown\<close> is what that block throws while it runs, if anything; only such a
  synchronous exception reaches the \<open>catch\<close>, which marks the item as failed and counts
  the failure.\<close>

definition uploadFile :: "js_error option \<Rightarrow> UploadFile \<Rightarrow> UploadFile list \<Rightarrow> UploadFile list" where
  "uploadFile thrown uploadFile' fs =
     (let fs1 = markUploading (uf_id uploadFile') fs in
      case thrown of
        None \<Rightarrow> fs1
      | Some e \<Rightarrow>
          markError (uf_id uploadFile')
            (case e of JsError name message \<Rightarrow> message | NonError \<Rightarrow> ''Upload failed'') fs1)"

text \<open>What the request reports later, through the listeners. The listeners run from the
  event loop, after \<open>uploadFile\<close> has returned and outside its \<open>try\<close>: the \<open>throw\<close> in
  the \<open>load\<close> listener (status other than 200), in the \<open>error\<close> listener and in the
  \<open>timeout\<close> listener ends that listener and changes no state. A progress event carries
  \<open>lengthComputable\<close> and the percentage \<open>Math.round((event.loaded / event.total) * 100)\<close>
  as the runtime computes it (a computable event has a total other than 0).\<close>

datatype xhr_event =
    ProgressEvent bool nat
  | LoadEvent nat string
  | ErrorEvent
  | TimeoutEvent

definition on_xhr_event :: "string \<Rightarrow> xhr_event \<Rightarrow> UploadFile list \<Rightarrow> UploadFile list" where
  "on_xhr_event i ev fs =
     (case ev of
        ProgressEvent lengthComputable percent \<Rightarrow>
          (if lengthComputable
           then map (\<lambda>f. if uf_id f = i then f\<lparr>progress := percent\<rparr> else f) fs
           else fs)
      | LoadEvent xhrStatus responseText \<Rightarrow>
          (if xhrStatus = 200 then markSuccess i fs else fs)
      | ErrorEvent \<Rightarrow> fs
      | TimeoutEvent \<Rightarrow> fs)"

text \<open>\<open>retryUpload\<close>, and \<open>uploadAll\<close> (each item is the one the render's list held).\<close>

definition retryUpload :: "js_error option \<Rightarrow> UploadFile \<Rightarrow> UploadFile list \<Rightarrow> UploadFile list" where
  "retryUpload thrown file fs = (if retryCount file < 3 then uploadFile thrown file fs else fs)"

definition uploadAll :: "js_error option \<Rightarrow> UploadFile list \<Rightarrow> UploadFile list" where
  "uploadAll thrown fs =
     (let pendingFiles = filter (\<lambda>f. status f = Pending \<or> status f = Error) fs in
      foldl (\<lambda>acc file.
               if upload_error file \<noteq> None \<and> retryCount file \<ge> 3 then acc
               else uploadFile thrown file acc) fs pendingFiles)"

text \<open>What the rendered list offers for an item: the Retry button, the Upload button,
  and the Upload All button (shown while something is pending or failed, disabled while
  something is uploading).\<close>

definition retryOffered :: "UploadFile \<Rightarrow> bool" where
  "retryOffered f = (status f = Error \<and> retryCount f < 3)"

definition uploadOffered :: "UploadFile \<Rightarrow> bool" where
  "uploadOffered f = (status f = Pending)"

definition uploadAllEnabled :: "UploadFile list \<Rightarrow> bool" where
  "uploadAllEnabled fs =
     (length (filter (\<lambda>f. status f = Pending \<or> status f = Error) fs) > 0
      \<and> \<not> length (filter (\<lambda>f. status f = Uploading) fs) > 0)"

text \<open>\<open>validateFile\<close>, with \<open>maxFileSize\<close> at its default (the page passes none).\<close>

definition maxFileSize :: nat where
  "maxFileSize = 100 * 1024 * 1024"

definition supportedFormats :: "string list" where
  "supportedFormats = [''video/webm'', ''video/mp4'', ''video/avi'', ''video/mov'', ''video/quicktime'']"

definition validateFile :: "File \<Rightarrow> string option" where
  "validateFile file =
     (if \<not> startsWith (file_type file) ''video/'' then Some ''Only video files are allowed''
      else if length (file_bytes file) > maxFileSize
        then Some (''File size must be less than '' @ show_nat (maxFileSize div (1024 * 1024)) @ ''MB'')
      else if filter (\<lambda>format. str_includes (file_type file) (split_on (CHR ''/'') format ! 1))
                supportedFormats = []
        then Some ''Unsupported video format. Please use WebM, MP4, AVI, or MOV files''
      else None)"

text \<open>A file as \<open>addFiles\<close> enters it into the list: a file that \<open>validateFile\<close> rejects
  is entered as failed, with the message.\<close>

definition newUploadFile :: "string \<Rightarrow> File \<Rightarrow> UploadFile" where
  "newUploadFile i file =
     (let error' = validateFile file in
      \<lparr>uf_id = i, uf_file = file, progress = 0,
       status = (if error' \<noteq> None then Error else Pending),
       upload_error = error', retryCount = 0\<rparr>)"

section \<open>Recordings routes (\<open>app/api/recordings\<close>) and the \<open>Recording\<close> model\<close>

subsection \<open>The \<open>Recording\<close> model\<close>

text \<open>\<open>interface IRecording\<close>; \<open>rid\<close> is the document's \<open>_id\<close>.\<close>

record Recording =
  rid :: string
  title :: string
  filename :: string
  fileId :: string
  size_bytes :: int
  duration :: int
  contentType :: string
  createdAt :: nat
  updatedAt :: nat

text \<open>The validators of \<open>RecordingSchema\<close>, run by \<open>save\<close> (the title after \<open>trim\<close>).\<close>

definition schema_valid :: "Recording \<Rightarrow> bool" where
  "schema_valid r =
     (title r \<noteq> [] \<and> length (title r) \<le> 200
      \<and> filename r \<noteq> []
      \<and> 0 \<le> size_bytes r
      \<and> 0 \<le> duration r \<and> duration r \<le> 180
      \<and> startsWith (contentType r) ''video/'')"

subsection \<open>The chunked store\<close>

text \<open>Modelled from the spec: the bucket is the third-party chunked store
  (\<open>GridFSBucket\<close>), which is not part of the repository. Following section 4.4 of the
  specification, \<open>put\<close> splits the binary into an ordered sequence of same-size chunks
  (the last may be shorter) and records the total length; \<open>get\<close> with a range returns
  exactly the requested bytes of the reassembled content, and without a range the whole
  content; \<open>delete\<close> removes the whole chunk-set or fails as a whole, and an unknown
  reference is a not-found error. \<open>openDownloadStream\<close> takes the start offset and the
  exclusive end offset; a range that does not lie within the content makes the stream
  fail when it is read.\<close>

datatype storage_error = FileNotFound | RangeError | StorageFailure | ValidationError

record gridfs_file =
  gf_id :: string
  gf_filename :: string
  gf_length :: nat
  gf_chunks :: "byte list list"
  gf_originalName :: string
  gf_contentType :: string

definition chunkSizeBytes :: nat where
  "chunkSizeBytes = 261120"

function split_chunks :: "nat \<Rightarrow> byte list \<Rightarrow> byte list list" where
  "split_chunks n xs =
     (if n = 0 \<or> xs = [] then [] else take n xs # split_chunks n (drop n xs))"
  by pat_completeness auto
termination
  by (relation "measure (\<lambda>(n, xs). length xs)") auto

declare split_chunks.simps [simp del]

record Database =
  recordings :: "Recording list"
  bucket_files :: "gridfs_file list"

text \<open>What may go wrong at the database, one flag per kind of operation.\<close>

record Faults =
  connectFails :: bool
  queryFails :: bool
  uploadFails :: bool
  saveFails :: bool
  bucketDeleteFails :: bool
  recordDeleteFails :: bool

definition noFaults :: Faults where
  "noFaults = \<lparr>connectFails = False, queryFails = False, uploadFails = False,
     saveFails = False, bucketDeleteFails = False, recordDeleteFails = False\<rparr>"

definition bucket_find :: "Database \<Rightarrow> string \<Rightarrow> gridfs_file list" where
  "bucket_find db fid = filter (\<lambda>f. gf_id f = fid) (bucket_files db)"

definition bucket_put :: "Database \<Rightarrow> string \<Rightarrow> string \<Rightarrow> File \<Rightarrow> Database" where
  "bucket_put db fid name file =
     db\<lparr>bucket_files := bucket_files db @
          [\<lparr>gf_id = fid, gf_filename = name, gf_length = length (file_bytes file),
            gf_chunks = split_chunks chunkSizeBytes (file_bytes file),
            gf_originalName = file_name file, gf_contentType = file_type file\<rparr>]\<rparr>"

definition openDownloadStream ::
  "gridfs_file \<Rightarrow> (js_number \<times> js_number) option \<Rightarrow> storage_error + byte list" where
  "openDownloadStream file options =
     (case options of
        None \<Rightarrow> Inr (concat (gf_chunks file))
      | Some (Num s, Num e) \<Rightarrow>
          if 0 \<le> s \<and> s \<le> e \<and> e \<le> int (gf_length file)
          then Inr (take (nat (e - s)) (drop (nat s) (concat (gf_chunks file))))
          else Inl RangeError
      | Some _ \<Rightarrow> Inl RangeError)"

definition bucket_delete :: "Faults \<Rightarrow> Database \<Rightarrow> string \<Rightarrow> storage_error + Database" where
  "bucket_delete env db fid =
     (if bucketDeleteFails env then Inl StorageFailure
      else if bucket_find db fid = [] then Inl FileNotFound
      else Inr (db\<lparr>bucket_files := filter (\<lambda>f. gf_id f \<noteq> fid) (bucket_files db)\<rparr>))"

subsection \<open>Queries on the \<open>Recording\<close> collection\<close>

text \<open>An id given as a string is cast to an \<open>ObjectId\<close> before it is compared: the
  hexadecimal digits count, not their case. A stored id (\<open>rid\<close>, \<open>fileId\<close>, \<open>gf_id\<close>) is
  held in the lower-case spelling that \<open>toString()\<close> gives.\<close>

definition lower_hex :: "char \<Rightarrow> char" where
  "lower_hex ch =
     (if ch = CHR ''A'' then CHR ''a'' else if ch = CHR ''B'' then CHR ''b''
      else if ch = CHR ''C'' then CHR ''c'' else if ch = CHR ''D'' then CHR ''d''
      else if ch = CHR ''E'' then CHR ''e'' else if ch = CHR ''F'' then CHR ''f'' else ch)"

definition ObjectId_of :: "string \<Rightarrow> string" where
  "ObjectId_of i = map lower_hex i"

definition findById :: "Database \<Rightarrow> string \<Rightarrow> Recording option" where
  "findById db i = find (\<lambda>r. rid r = ObjectId_of i) (recordings db)"

text \<open>The \<open>pre("findOneAndDelete")\<close> hook: it looks the document up and tries to delete
  its file from the bucket; a failure there is logged and swallowed.\<close>

definition pre_findOneAndDelete :: "Faults \<Rightarrow> Database \<Rightarrow> string \<Rightarrow> Database" where
  "pre_findOneAndDelete env db i =
     (case findById db i of
        None \<Rightarrow> db
      | Some doc \<Rightarrow>
          (if connectFails env then db
           else (case bucket_delete env db (fileId doc) of Inl err \<Rightarrow> db | Inr db' \<Rightarrow> db')))"

text \<open>\<open>Recording.findByIdAndDelete(id)\<close>: the hook, then the removal of the document. On
  failure the database is as the hook left it.\<close>

definition findByIdAndDelete :: "Faults \<Rightarrow> Database \<Rightarrow> string \<Rightarrow> (storage_error \<times> Database) + Database" where
  "findByIdAndDelete env db i =
     (if queryFails env then Inl (StorageFailure, db)
      else let db1 = pre_findOneAndDelete env db i in
        if recordDeleteFails env then Inl (StorageFailure, db1)
        else Inr (db1\<lparr>recordings := filter (\<lambda>r. rid r \<noteq> ObjectId_of i) (recordings db1)\<rparr>))"

text \<open>\<open>recording.save()\<close>: the schema's validators, the unique index on \<open>filename\<close>, then
  the insert.\<close>

definition save :: "Faults \<Rightarrow> Database \<Rightarrow> Recording \<Rightarrow> storage_error + Database" where
  "save env db r =
     (let r' = r\<lparr>title := trim (title r)\<rparr> in
      if \<not> schema_valid r' then Inl ValidationError
      else if saveFails env \<or> filter (\<lambda>x. filename x = filename r') (recordings db) \<noteq> []
        then Inl StorageFailure
      else Inr (db\<lparr>recordings := recordings db @ [r']\<rparr>))"

subsection \<open>Responses\<close>

datatype body = Json "(string \<times> string) list" | Stream "storage_error + byte list"

record Response =
  resp_status :: nat
  resp_headers :: "(string \<times> string) list"
  resp_body :: body

definition json_error :: "nat \<Rightarrow> string \<Rightarrow> Response" where
  "json_error code msg = \<lparr>resp_status = code, resp_headers = [], resp_body = Json [(''error'', msg)]\<rparr>"

text \<open>\<open>ObjectId.isValid\<close> on a string: 24 hexadecimal digits.\<close>

definition ObjectId_isValid :: "string \<Rightarrow> bool" where
  "ObjectId_isValid i = (length i = 24 \<and> filter (\<lambda>ch. \<not> is_hex_digit ch) i = [])"

subsection \<open>\<open>GET /api/recordings/[id]\<close>\<close>

text \<open>The branch for a request with a \<open>Range\<close> header: the header is cut at its dashes after
  the first \<open>bytes=\<close> is removed; \<open>start\<close> is parsed from the first part, \<open>end\<close> from the
  second if that is a non-empty string and is \<open>file.length - 1\<close> otherwise. Neither is
  compared with the length or with the other. The download stream is opened from
  \<open>start\<close> to \<open>end + 1\<close>.\<close>

definition range_parts :: "string \<Rightarrow> string list" where
  "range_parts rangeValue = split_on (CHR ''-'') (replace_first ''bytes='' [] rangeValue)"

definition range_start :: "string \<Rightarrow> js_number" where
  "range_start rangeValue = parseInt10 (range_parts rangeValue ! 0)"

definition range_end :: "nat \<Rightarrow> string \<Rightarrow> js_number" where
  "range_end fileLength rangeValue =
     (let parts = range_parts rangeValue in
      if length parts > 1 \<and> parts ! 1 \<noteq> [] then parseInt10 (parts ! 1)
      else Num (int fileLength - 1))"

definition range_response :: "Recording \<Rightarrow> gridfs_file \<Rightarrow> string \<Rightarrow> Response" where
  "range_response recording file rangeValue =
     (let start = range_start rangeValue;
          end' = range_end (gf_length file) rangeValue;
          chunksize = js_add (js_sub end' start) (Num 1);
          downloadStream = openDownloadStream file (Some (start, js_add end' (Num 1)))
      in \<lparr>resp_status = 206,
          resp_headers =
            [(''Content-Range'', ''bytes '' @ show_number start @ ''-'' @ show_number end' @ ''/''
                @ show_nat (gf_length file)),
             (''Accept-Ranges'', ''bytes''),
             (''Content-Length'', show_number chunksize),
             (''Content-Type'',
                if contentType recording \<noteq> [] then contentType recording else ''video/webm'')],
          resp_body = Stream downloadStream\<rparr>)"

definition full_response :: "Recording \<Rightarrow> gridfs_file \<Rightarrow> Response" where
  "full_response recording file =
     \<lparr>resp_status = 200,
      resp_headers =
        [(''Content-Length'', show_nat (gf_length file)),
         (''Content-Type'',
            if contentType recording \<noteq> [] then contentType recording else ''video/webm''),
         (''Content-Disposition'', ''inline; filename='' @ [CHR 0x22] @ filename recording @ [CHR 0x22])],
      resp_body = Stream (openDownloadStream file None)\<rparr>"

definition GET_recording :: "Faults \<Rightarrow> Database \<Rightarrow> string \<Rightarrow> string option \<Rightarrow> Response" where
  "GET_recording env db i rangeHeader =
     (if \<not> ObjectId_isValid i then json_error 400 ''Invalid recording ID''
      else if connectFails env \<or> queryFails env
        then json_error 500 ''Failed to stream recording''
      else case findById db i of
        None \<Rightarrow> json_error 404 ''Recording not found''
      | Some recording \<Rightarrow>
          (case bucket_find db (fileId recording) of
             [] \<Rightarrow> json_error 404 ''Recording file not found''
           | file # _ \<Rightarrow>
               (case rangeHeader of
                  None \<Rightarrow> full_response recording file
                | Some rangeValue \<Rightarrow>
                    if rangeValue \<noteq> [] then range_response recording file rangeValue
                    else full_response recording file)))"

subsection \<open>\<open>DELETE /api/recordings/[id]\<close>\<close>

definition DELETE_recording :: "Faults \<Rightarrow> Database \<Rightarrow> string \<Rightarrow> Response \<times> Database" where
  "DELETE_recording env db i =
     (if \<not> ObjectId_isValid i then (json_error 400 ''Invalid recording ID'', db)
      else if connectFails env \<or> queryFails env
        then (json_error 500 ''Failed to delete recording'', db)
      else case findById db i of
        None \<Rightarrow> (json_error 404 ''Recording not found'', db)
      | Some recording \<Rightarrow>
          (case bucket_delete env db (fileId recording) of
             Inl err \<Rightarrow> (json_error 500 ''Failed to delete recording'', db)
           | Inr db1 \<Rightarrow>
               (case findByIdAndDelete env db1 i of
                  Inl (err, db2) \<Rightarrow> (json_error 500 ''Failed to delete recording'', db2)
                | Inr db2 \<Rightarrow>
                    (\<lparr>resp_status = 200, resp_headers = [],
                      resp_body = Json [(''message'', ''Recording deleted successfully'')]\<rparr>,
                     db2))))"

subsection \<open>\<open>POST /api/recordings\<close>\<close>

text \<open>The multipart form (a missing field reads as \<open>null\<close>), and what the server draws
  from its clock and its id generator while it handles the request.\<close>

record FormData =
  form_recording :: "File option"
  form_title :: "string option"
  form_duration :: "string option"
  form_size :: "string option"

record Generated =
  newFileId :: string
  newRecordId :: string
  timestamp :: string
  localeString :: string
  now :: nat

definition field_string :: "string option \<Rightarrow> string" where
  "field_string v = (case v of None \<Rightarrow> ''null'' | Some s \<Rightarrow> s)"

definition maxSize :: nat where
  "maxSize = 100 * 1024 * 1024"

text \<open>The generated file name, and the document that \<open>new Recording({...})\<close> builds.\<close>

definition POST_filename :: "Generated \<Rightarrow> string" where
  "POST_filename g = ''recording-'' @ timestamp g @ ''.webm''"

definition new_Recording :: "Generated \<Rightarrow> FormData \<Rightarrow> File \<Rightarrow> Recording" where
  "new_Recording g form file =
     \<lparr>rid = newRecordId g,
      title = (case form_title form of
                 None \<Rightarrow> ''Recording '' @ localeString g
               | Some t \<Rightarrow> if t \<noteq> [] then t else ''Recording '' @ localeString g),
      filename = POST_filename g,
      fileId = newFileId g,
      size_bytes = int (length (file_bytes file)),
      duration = (case parseInt (field_string (form_duration form)) of NaN \<Rightarrow> 0 | Num d \<Rightarrow> d),
      contentType = file_type file,
      createdAt = now g,
      updatedAt = now g\<rparr>"

definition POST_recordings :: "Faults \<Rightarrow> Generated \<Rightarrow> Database \<Rightarrow> FormData \<Rightarrow> Response \<times> Database" where
  "POST_recordings env g db form =
     (case form_recording form of
        None \<Rightarrow> (json_error 400 ''No file provided'', db)
      | Some file \<Rightarrow>
          if \<not> startsWith (file_type file) ''video/''
            then (json_error 400 ''Invalid file type. Only video files are allowed.'', db)
          else if length (file_bytes file) > maxSize
            then (json_error 400 ''File too large. Maximum size is 100MB.'', db)
          else if connectFails env then (json_error 500 ''Failed to upload recording'', db)
          else if uploadFails env then (json_error 500 ''Failed to upload recording'', db)
          else
            let db1 = bucket_put db (newFileId g) (POST_filename g) file;
                recording = new_Recording g form file
            in case save env db1 recording of
                 Inl err \<Rightarrow> (json_error 500 ''Failed to upload recording'', db1)
               | Inr db2 \<Rightarrow>
                   (\<lparr>resp_status = 200, resp_headers = [],
                     resp_body = Json [(''message'', ''Recording uploaded successfully''),
                                       (''id'', newRecordId g),
                                       (''url'', ''/api/recordings/'' @ newRecordId g)]\<rparr>,
                    db2))"

subsection \<open>A stored recording of 10,000 bytes\<close>

definition sampleRecording :: Recording where
  "sampleRecording = \<lparr>rid = ''64b7f0c2a1d9e8f7a6b5c4d3'', title = ''Demo'',
     filename = ''recording-2024-01-01T00-00-00-000Z.webm'',
     fileId = ''64b7f0c2a1d9e8f7a6b5c4d4'', size_bytes = 10000, duration = 12,
     contentType = ''video/webm'', createdAt = 0, updatedAt = 0\<rparr>"

definition sampleFile :: gridfs_file where
  "sampleFile = \<lparr>gf_id = ''64b7f0c2a1d9e8f7a6b5c4d4'',
     gf_filename = ''recording-2024-01-01T00-00-00-000Z.webm'', gf_length = 10000,
     gf_chunks = [replicate 10000 7], gf_originalName = ''demo.webm'',
     gf_contentType = ''video/webm''\<rparr>"

definition sampleDb :: Database where
  "sampleDb = \<lparr>recordings = [sampleRecording], bucket_files = [sampleFile]\<rparr>"

text \<open>The same database with the chunk-set of the recording missing.\<close>

definition noChunksDb :: Database where
  "noChunksDb = \<lparr>recordings = [sampleRecording], bucket_files = []\<rparr>"

subsection \<open>A stored clip of ten different bytes\<close>

definition clipRecording :: Recording where
  "clipRecording = \<lparr>rid = ''64b7f0c2a1d9e8f7a6b5c4e1'', title = ''Clip'',
     filename = ''recording-2024-01-03T00-00-00-000Z.webm'',
     fileId = ''64b7f0c2a1d9e8f7a6b5c4e2'', size_bytes = 10, duration = 1,
     contentType = ''video/mp4'', createdAt = 2, updatedAt = 2\<rparr>"

definition clipFile :: gridfs_file where
  "clipFile = \<lparr>gf_id = ''64b7f0c2a1d9e8f7a6b5c4e2'',
     gf_filename = ''recording-2024-01-03T00-00-00-000Z.webm'', gf_length = 10,
     gf_chunks = [[10, 11, 12, 13], [14, 15, 16, 17], [18, 19]], gf_originalName = ''clip.mp4'',
     gf_contentType = ''video/mp4''\<rparr>"

definition clipDb :: Database where
  "clipDb = \<lparr>recordings = [sampleRecording, clipRecording], bucket_files = [sampleFile, clipFile]\<rparr>"

text \<open>An upload that declares a duration of 200 seconds.\<close>

definition sampleForm :: FormData where
  "sampleForm = \<lparr>form_recording = Some \<lparr>file_name = ''clip.webm'', file_type = ''video/webm'',
        file_bytes = [1, 2, 3]\<rparr>,
     form_title = Some ''Clip'', form_duration = Some ''200'', form_size = Some ''3''\<rparr>"

text \<open>An upload that declares a duration of 12 seconds.\<close>

definition shortForm :: FormData where
  "shortForm = \<lparr>form_recording = Some \<lparr>file_name = ''clip.webm'', file_type = ''video/webm'',
        file_bytes = [1, 2, 3]\<rparr>,
     form_title = Some ''Clip'', form_duration = Some ''12'', form_size = Some ''3''\<rparr>"

definition sampleGenerated :: Generated where
  "sampleGenerated = \<lparr>newFileId = ''64b7f0c2a1d9e8f7a6b5c4d5'',
     newRecordId = ''64b7f0c2a1d9e8f7a6b5c4d6'', timestamp = ''2024-01-02T00-00-00-000Z'',
     localeString = ''1/2/2024, 12:00:00 AM'', now = 1\<rparr>"

section \<open>Properties\<close>

lemma chunksRef_stopTimer: "chunksRef (stopTimer c) = chunksRef c"
  by (simp add: stopTimer_def)

lemma state_stopTimer: "state (stopTimer c) = state c"
  by (simp add: stopTimer_def)

lemma state_closeAudioContext: "state (closeAudioContext c) = state c"
  by (simp add: closeAudioContext_def)

lemma error_stopTimer: "error (stopTimer c) = error c"
  by (simp add: stopTimer_def)

lemma error_closeAudioContext: "error (closeAudioContext c) = error c"
  by (simp add: closeAudioContext_def)

lemma chunksRef_deliver:
  "chunksRef (deliver frags c) = chunksRef c @ filter (\<lambda>d. 0 < blob_size d) frags"
  unfolding deliver_def
  by (induction frags arbitrary: c) (simp_all add: ondataavailable_def)

lemma recordedBlob_onstop:
  "recordedBlob (state (onstop mimeType c)) = Some (new_Blob (chunksRef c) mimeType)"
  by (simp add: onstop_def Let_def state_closeAudioContext state_stopTimer)

text \<open>C2. After \<open>chunksRef.current = []\<close>, for any fragments delivered in arrival order,
  the stored chunks are exactly the positive-length fragments in that order (a
  zero-length fragment is never stored), and the blob assembled by \<open>onstop\<close> is the
  concatenation of the bytes of exactly those fragments, in that order.\<close>

theorem C2_assembled_is_concat_of_nonempty_fragments:
  "chunksRef (deliver frags (c\<lparr>chunksRef := []\<rparr>)) = filter (\<lambda>d. 0 < blob_size d) frags
   \<and> recordedBlob (state (onstop mimeType (deliver frags (c\<lparr>chunksRef := []\<rparr>))))
       = Some \<lparr>blob_data = concat (map blob_data (filter (\<lambda>d. 0 < blob_size d) frags)),
               blob_type = mimeType\<rparr>"
  by (simp add: recordedBlob_onstop chunksRef_deliver new_Blob_def)

subsection \<open>The timer and the duration cap\<close>

lemma stopRecording_initialState: "stopRecording initialState c = c"
  by (simp add: stopRecording_def initialState_def)

lemma tick_below_cap:
  "timerRef c \<Longrightarrow> recordingTime (state c) < 180 \<Longrightarrow>
   tick c = c\<lparr>state := (state c)\<lparr>recordingTime := recordingTime (state c) + 1\<rparr>\<rparr>"
  by (simp add: tick_def timer_callback_def)

lemma tick_at_cap: "180 \<le> recordingTime (state c) \<Longrightarrow> tick c = c"
  by (simp add: tick_def timer_callback_def stopRecording_initialState)

lemma tick_timerRef: "timerRef (tick c) = timerRef c"
  by (simp add: tick_def timer_callback_def stopRecording_initialState)

lemma tick_capped:
  "timerRef c \<Longrightarrow> recordingTime (state c) \<le> 180 \<Longrightarrow>
   tick c = c\<lparr>state := (state c)\<lparr>recordingTime := min 180 (recordingTime (state c) + 1)\<rparr>\<rparr>"
proof (cases "recordingTime (state c) < 180")
  case True
  assume "timerRef c"
  with True show ?thesis by (simp add: tick_below_cap min_def)
next
  case False
  assume "recordingTime (state c) \<le> 180"
  with False have eq: "recordingTime (state c) = 180" by simp
  then have "tick c = c" by (simp add: tick_at_cap)
  moreover have "c\<lparr>state := (state c)\<lparr>recordingTime := min 180 (recordingTime (state c) + 1)\<rparr>\<rparr> = c"
    using eq by simp
  ultimately show ?thesis by simp
qed

lemma ticks_capped:
  "timerRef c \<Longrightarrow> recordingTime (state c) \<le> 180 \<Longrightarrow>
   ticks n c = c\<lparr>state := (state c)\<lparr>recordingTime := min 180 (recordingTime (state c) + n)\<rparr>\<rparr>"
proof (induction n)
  case 0
  then show ?case by (simp add: ticks_def)
next
  case (Suc n)
  let ?d = "c\<lparr>state := (state c)\<lparr>recordingTime := min 180 (recordingTime (state c) + n)\<rparr>\<rparr>"
  have "ticks (Suc n) c = tick (ticks n c)" by (simp add: ticks_def)
  also have "\<dots> = tick ?d" using Suc by simp
  also have "\<dots> = ?d\<lparr>state := (state ?d)\<lparr>recordingTime := min 180 (recordingTime (state ?d) + 1)\<rparr>\<rparr>"
    using Suc.prems by (intro tick_capped) simp_all
  also have "\<dots> = c\<lparr>state := (state c)\<lparr>recordingTime := min 180 (recordingTime (state c) + Suc n)\<rparr>\<rparr>"
    by (simp add: min_def)
  finally show ?case .
qed

text \<open>While the timer runs, each tick below the cap adds exactly one second, and the
  elapsed time never passes 180.\<close>

lemma ticks_never_exceed_cap:
  "timerRef c \<Longrightarrow> recordingTime (state c) \<le> 180 \<Longrightarrow> recordingTime (state (ticks n c)) \<le> 180"
  by (simp add: ticks_capped)

text \<open>The same updater with the closure of the current render (the Stop button's) does
  stop a recording session.\<close>

lemma clickStop_stops:
  "mediaRecorderRef c = Some r \<Longrightarrow> isRecording (state c) \<Longrightarrow>
   timerRef (clickStop c) = False \<and>
   map_option mr_state (mediaRecorderRef (clickStop c)) = Some Inactive"
  by (simp add: clickStop_def stopRecording_def Let_def closeAudioContext_def stopTimer_def
      split: option.splits)

lemma started_granting:
  "startRecording grantingEnv mount =
     \<lparr>state = \<lparr>isRecording = True, isPaused = False, recordedBlob = None, recordingTime = 0,
               stream = Some [DisplayVideoTrack, MixedAudioTrack]\<rparr>,
      micEnabled = True, error = None,
      mediaRecorderRef = Some \<lparr>mr_stream = [DisplayVideoTrack, MixedAudioTrack],
                                mr_mimeType = ''video/webm;codecs=vp9,opus'',
                                mr_state = Recording\<rparr>,
      chunksRef = [], timerRef = True,
      audioContextRef = Some \<lparr>branches = [\<lparr>branch_source = DisplaySource, branch_gain = 0.7\<rparr>,
                                             \<lparr>branch_source = MicSource, branch_gain = 1\<rparr>]\<rparr>,
      stoppedTracks = []\<rparr>"
  by (simp add: startRecording_def grantingEnv_def mount_def initialState_def mixAudio_def
      selectMimeType_def Let_def)

text \<open>C1. Start a session in a browser that grants everything and let the interval fire
  181 times. The elapsed time has gone up by one per tick to 180 and stays there, but the
  session has not stopped: the 181st tick calls the first render's \<open>stopRecording\<close>, whose
  captured \<open>isRecording\<close> is \<open>false\<close>, so the recorder is still recording, the state still
  says \<open>isRecording\<close>, and the interval is still set.\<close>

theorem C1_cap_reached_session_still_recording:
  "recordingTime (state (ticks 180 (startRecording grantingEnv mount))) = 180
   \<and> recordingTime (state (ticks 181 (startRecording grantingEnv mount))) = 180
   \<and> isRecording (state (ticks 181 (startRecording grantingEnv mount))) = True
   \<and> timerRef (ticks 181 (startRecording grantingEnv mount)) = True
   \<and> map_option mr_state (mediaRecorderRef (ticks 181 (startRecording grantingEnv mount)))
       = Some Recording"
proof -
  let ?c = "startRecording grantingEnv mount"
  have t: "timerRef ?c" and r: "recordingTime (state ?c) \<le> 180"
    by (simp_all add: started_granting)
  show ?thesis
    unfolding ticks_capped [OF t r] by (simp add: started_granting)
qed

subsection \<open>An empty capture\<close>

text \<open>C5, as stated, fails: a session that collected no fragment still gets a recording,
  the zero-byte blob.\<close>

theorem C5_empty_capture_yields_blob:
  "recordedBlob (state (onstop ''video/webm;codecs=vp9,opus'' (startRecording grantingEnv mount)))
     \<noteq> None
   \<and> recordedBlob (state (onstop ''video/webm;codecs=vp9,opus'' (startRecording grantingEnv mount)))
     = Some \<lparr>blob_data = [], blob_type = ''video/webm;codecs=vp9,opus''\<rparr>"
  by (simp add: recordedBlob_onstop started_granting new_Blob_def)

lemma error_onstop:
  "error (onstop mimeType c) =
     (if 0 < blob_size (new_Blob (chunksRef c) mimeType) then error c
      else Some empty_capture_message)"
  by (simp add: onstop_def Let_def error_closeAudioContext error_stopTimer)

lemma isRecording_onstop: "isRecording (state (onstop mimeType c)) = False"
  by (simp add: onstop_def Let_def state_closeAudioContext state_stopTimer)

text \<open>C5, amended. When no delivered fragment has positive length, \<open>onstop\<close> sets the
  empty-capture error text, ends the recording state, and stores the zero-byte blob as
  the recorded blob.\<close>

theorem C5_empty_capture_error_and_zero_byte_blob:
  assumes "filter (\<lambda>d. 0 < blob_size d) frags = []"
  shows "error (onstop mimeType (deliver frags (c\<lparr>chunksRef := []\<rparr>))) = Some empty_capture_message
    \<and> recordedBlob (state (onstop mimeType (deliver frags (c\<lparr>chunksRef := []\<rparr>))))
        = Some \<lparr>blob_data = [], blob_type = mimeType\<rparr>
    \<and> isRecording (state (onstop mimeType (deliver frags (c\<lparr>chunksRef := []\<rparr>)))) = False"
  using assms
  by (simp add: error_onstop recordedBlob_onstop isRecording_onstop chunksRef_deliver
      new_Blob_def blob_size_def)

theorem C5_empty_capture_witness:
  "filter (\<lambda>d. 0 < blob_size d) [\<lparr>blob_data = [], blob_type = ''video/webm''\<rparr>] = []
   \<and> error (onstop ''video/webm'' (deliver [\<lparr>blob_data = [], blob_type = ''video/webm''\<rparr>]
        (mount\<lparr>chunksRef := []\<rparr>))) = Some empty_capture_message
   \<and> recordedBlob (state (onstop ''video/webm'' (deliver [\<lparr>blob_data = [], blob_type = ''video/webm''\<rparr>]
        (mount\<lparr>chunksRef := []\<rparr>)))) = Some \<lparr>blob_data = [], blob_type = ''video/webm''\<rparr>"
proof -
  have h: "filter (\<lambda>d. 0 < blob_size d) [\<lparr>blob_data = [], blob_type = ''video/webm''\<rparr>] = []"
    by (simp add: blob_size_def)
  from C5_empty_capture_error_and_zero_byte_blob [OF h, of "''video/webm''" mount] h
  show ?thesis by simp
qed

subsection \<open>Denied sources\<close>

lemma startRecording_display_denied:
  "getDisplayMedia env = Inl e \<Longrightarrow>
   startRecording env c = c\<lparr>error := Some (start_failure_message e)\<rparr>"
  by (simp add: startRecording_def Let_def)

lemma startRecording_mic_denied:
  assumes "getDisplayMedia env = Inr d" and "micEnabled c" and "getUserMedia env = Some e"
    and "isTypeSupported env (selectMimeType (isTypeSupported env))"
  shows "startRecording env c =
     c\<lparr>error := Some mic_denied_message, chunksRef := [],
       mediaRecorderRef := Some \<lparr>mr_stream = tracks d,
          mr_mimeType = selectMimeType (isTypeSupported env), mr_state = Recording\<rparr>,
       state := (state c)\<lparr>isRecording := True, recordingTime := 0,
          stream := Some (tracks d), recordedBlob := None\<rparr>,
       timerRef := True\<rparr>"
  using assms by (simp add: startRecording_def Let_def)

text \<open>C6. If the display request is rejected, \<open>startRecording\<close> changes nothing but the
  error text (no recorder, no timer, the recording flag untouched), and the text tells
  permission denied, no source and unsupported apart. If the display request is granted
  and the microphone request is rejected (and the browser can record the selected type),
  the session records the display stream's own tracks, no audio graph is built, and the
  microphone warning is the error text.\<close>

theorem C6_display_denial_fatal_mic_denial_warns:
  assumes "getDisplayMedia envD = Inl e"
    and "getDisplayMedia envM = Inr d" and "micEnabled c" and "getUserMedia envM = Some e'"
    and "isTypeSupported envM (selectMimeType (isTypeSupported envM))"
  shows "startRecording envD c = c\<lparr>error := Some (start_failure_message e)\<rparr>
    \<and> start_failure_message (JsError ''NotAllowedError'' m1)
        = ''Failed to start recording. Please grant screen sharing permissions.''
    \<and> start_failure_message (JsError ''NotFoundError'' m2)
        = ''Failed to start recording. No screen sharing source available.''
    \<and> start_failure_message (JsError ''NotSupportedError'' m3)
        = ''Failed to start recording. Screen recording is not supported in this browser.''
    \<and> isRecording (state (startRecording envM c)) = True
    \<and> stream (state (startRecording envM c)) = Some (tracks d)
    \<and> map_option mr_stream (mediaRecorderRef (startRecording envM c)) = Some (tracks d)
    \<and> map_option mr_state (mediaRecorderRef (startRecording envM c)) = Some Recording
    \<and> audioContextRef (startRecording envM c) = audioContextRef c
    \<and> error (startRecording envM c) = Some mic_denied_message"
  unfolding startRecording_display_denied [OF assms(1)]
    startRecording_mic_denied [OF assms(2,3,4,5)]
  by (simp add: start_failure_message_def)

theorem C6_denials_witness:
  "startRecording (grantingEnv\<lparr>getDisplayMedia := Inl (JsError ''NotAllowedError'' ''Permission denied'')\<rparr>) mount
     = mount\<lparr>error := Some ''Failed to start recording. Please grant screen sharing permissions.''\<rparr>
   \<and> isRecording (state (startRecording
        (grantingEnv\<lparr>getUserMedia := Some (JsError ''NotAllowedError'' ''Permission denied'')\<rparr>) mount)) = True
   \<and> stream (state (startRecording
        (grantingEnv\<lparr>getUserMedia := Some (JsError ''NotAllowedError'' ''Permission denied'')\<rparr>) mount))
       = Some [DisplayVideoTrack, DisplayAudioTrack]
   \<and> error (startRecording
        (grantingEnv\<lparr>getUserMedia := Some (JsError ''NotAllowedError'' ''Permission denied'')\<rparr>) mount)
       = Some ''Microphone access denied. Recording system audio only.''"
proof -
  let ?eD = "grantingEnv\<lparr>getDisplayMedia := Inl (JsError ''NotAllowedError'' ''Permission denied'')\<rparr>"
  let ?eM = "grantingEnv\<lparr>getUserMedia := Some (JsError ''NotAllowedError'' ''Permission denied'')\<rparr>"
  have h1: "getDisplayMedia ?eD = Inl (JsError ''NotAllowedError'' ''Permission denied'')"
    by simp
  have h2: "getDisplayMedia ?eM = Inr (DisplayStream True)"
    by (simp add: grantingEnv_def)
  have h3: "micEnabled mount"
    by (simp add: mount_def)
  have h4: "getUserMedia ?eM = Some (JsError ''NotAllowedError'' ''Permission denied'')"
    by simp
  have h5: "isTypeSupported ?eM (selectMimeType (isTypeSupported ?eM))"
    by (simp add: grantingEnv_def)
  from C6_display_denial_fatal_mic_denial_warns [OF h1 h2 h3 h4 h5,
      of "''Permission denied''" "[]" "[]"]
  show ?thesis
    by (simp add: mic_denied_message_def)
qed

subsection \<open>Audio mixing\<close>

text \<open>C9. When the display stream has an audio track and the microphone is enabled and
  granted (and the browser can record the selected type), the audio graph has exactly
  two branches into the destination, the display audio through a gain of 0.7 and the
  microphone through a gain of 1.0, and the stream given to the recorder (and kept in the
  state) is the display's video track with the destination's mixed track: the display's
  own audio track is not in it.\<close>

theorem C9_mix_display_70_percent_mic_full:
  assumes "getDisplayMedia env = Inr (DisplayStream True)"
    and "micEnabled c" and "getUserMedia env = None"
    and "isTypeSupported env (selectMimeType (isTypeSupported env))"
  shows "audioContextRef (startRecording env c)
       = Some \<lparr>branches = [\<lparr>branch_source = DisplaySource, branch_gain = 70 / 100\<rparr>,
                            \<lparr>branch_source = MicSource, branch_gain = 100 / 100\<rparr>]\<rparr>
    \<and> map_option mr_stream (mediaRecorderRef (startRecording env c))
       = Some [DisplayVideoTrack, MixedAudioTrack]
    \<and> stream (state (startRecording env c)) = Some [DisplayVideoTrack, MixedAudioTrack]
    \<and> DisplayAudioTrack \<notin> set (mr_stream (the (mediaRecorderRef (startRecording env c))))"
  using assms by (simp add: startRecording_def mixAudio_def Let_def)

theorem C9_mix_witness:
  "audioContextRef (startRecording grantingEnv mount)
       = Some \<lparr>branches = [\<lparr>branch_source = DisplaySource, branch_gain = 70 / 100\<rparr>,
                            \<lparr>branch_source = MicSource, branch_gain = 100 / 100\<rparr>]\<rparr>
   \<and> map_option mr_stream (mediaRecorderRef (startRecording grantingEnv mount))
       = Some [DisplayVideoTrack, MixedAudioTrack]"
proof -
  have h1: "getDisplayMedia grantingEnv = Inr (DisplayStream True)"
    and h2: "micEnabled mount" and h3: "getUserMedia grantingEnv = None"
    and h4: "isTypeSupported grantingEnv (selectMimeType (isTypeSupported grantingEnv))"
    by (simp_all add: grantingEnv_def mount_def)
  from C9_mix_display_70_percent_mic_full [OF h1 h2 h3 h4]
  show ?thesis by simp
qed

subsection \<open>Upload retries\<close>

lemma failure_events_change_nothing:
  "on_xhr_event i ErrorEvent fs = fs" "on_xhr_event i TimeoutEvent fs = fs"
  "xhrStatus \<noteq> 200 \<Longrightarrow> on_xhr_event i (LoadEvent xhrStatus responseText) fs = fs"
  by (simp_all add: on_xhr_event_def)

text \<open>Failures that do reach the \<open>catch\<close> are counted, and \<open>retryUpload\<close> does nothing for
  an item whose count has reached three.\<close>

lemma retryUpload_exhausted: "3 \<le> retryCount file \<Longrightarrow> retryUpload thrown file fs = fs"
  by (simp add: retryUpload_def)

text \<open>C8. One pending video file; the Upload button is pressed, the request is sent, and
  the network fails (the \<open>error\<close> event). The item is then still marked as uploading, with
  no error text and a failure count of 0: neither Retry nor Upload is offered for it, and
  Upload All is not available and would skip it. No second attempt follows, and the item
  never reaches the success state.\<close>

theorem C8_network_error_leaves_item_uploading:
  "on_xhr_event ''f1'' ErrorEvent
     (uploadFile None
        (newUploadFile ''f1'' \<lparr>file_name = ''a.webm'', file_type = ''video/webm'', file_bytes = [1, 2, 3]\<rparr>)
        [newUploadFile ''f1'' \<lparr>file_name = ''a.webm'', file_type = ''video/webm'', file_bytes = [1, 2, 3]\<rparr>])
     = [\<lparr>uf_id = ''f1'',
         uf_file = \<lparr>file_name = ''a.webm'', file_type = ''video/webm'', file_bytes = [1, 2, 3]\<rparr>,
         progress = 0, status = Uploading, upload_error = None, retryCount = 0\<rparr>]
   \<and> retryOffered \<lparr>uf_id = ''f1'',
         uf_file = \<lparr>file_name = ''a.webm'', file_type = ''video/webm'', file_bytes = [1, 2, 3]\<rparr>,
         progress = 0, status = Uploading, upload_error = None, retryCount = 0\<rparr> = False
   \<and> uploadOffered \<lparr>uf_id = ''f1'',
         uf_file = \<lparr>file_name = ''a.webm'', file_type = ''video/webm'', file_bytes = [1, 2, 3]\<rparr>,
         progress = 0, status = Uploading, upload_error = None, retryCount = 0\<rparr> = False
   \<and> uploadAllEnabled [\<lparr>uf_id = ''f1'',
         uf_file = \<lparr>file_name = ''a.webm'', file_type = ''video/webm'', file_bytes = [1, 2, 3]\<rparr>,
         progress = 0, status = Uploading, upload_error = None, retryCount = 0\<rparr>] = False
   \<and> uploadAll None [\<lparr>uf_id = ''f1'',
         uf_file = \<lparr>file_name = ''a.webm'', file_type = ''video/webm'', file_bytes = [1, 2, 3]\<rparr>,
         progress = 0, status = Uploading, upload_error = None, retryCount = 0\<rparr>]
       = [\<lparr>uf_id = ''f1'',
         uf_file = \<lparr>file_name = ''a.webm'', file_type = ''video/webm'', file_bytes = [1, 2, 3]\<rparr>,
         progress = 0, status = Uploading, upload_error = None, retryCount = 0\<rparr>]"
  by (simp add: on_xhr_event_def uploadFile_def markUploading_def newUploadFile_def
      validateFile_def startsWith_def maxFileSize_def supportedFormats_def
      retryOffered_def uploadOffered_def uploadAllEnabled_def uploadAll_def)

subsection \<open>Range requests\<close>

lemma digit_nth:
  assumes "k < 10"
  shows "is_digit (''0123456789'' ! k)" "digit_val (''0123456789'' ! k) = k"
    "\<not> is_space (''0123456789'' ! k)" "''0123456789'' ! k \<noteq> CHR ''-''"
    "''0123456789'' ! k \<noteq> CHR ''+''"
proof -
  from assms have "k \<in> {0, 1, 2, 3, 4, 5, 6, 7, 8, 9}" by auto
  then show "is_digit (''0123456789'' ! k)" "digit_val (''0123456789'' ! k) = k"
    "\<not> is_space (''0123456789'' ! k)" "''0123456789'' ! k \<noteq> CHR ''-''"
    "''0123456789'' ! k \<noteq> CHR ''+''"
    by (auto simp: is_digit_def digit_val_def is_space_def)
qed

declare show_nat.simps [simp del]

lemma show_nat_digits: "\<forall>ch \<in> set (show_nat n). is_digit ch"
proof (induction n rule: show_nat.induct)
  case (1 n)
  show ?case
  proof (cases "n < 10")
    case True
    then show ?thesis by (subst show_nat.simps) (simp add: digit_nth)
  next
    case False
    with 1 show ?thesis by (subst show_nat.simps) (simp add: digit_nth)
  qed
qed

lemma show_nat_nonempty: "show_nat n \<noteq> []"
  by (subst show_nat.simps) simp

lemma digits_value_snoc: "digits_value r (ds @ [ch]) = r * digits_value r ds + digit_val ch"
  by (simp add: digits_value_def)

lemma digits_value_show_nat: "digits_value 10 (show_nat n) = n"
proof (induction n rule: show_nat.induct)
  case (1 n)
  show ?case
  proof (cases "n < 10")
    case True
    then show ?thesis
      by (subst show_nat.simps) (simp add: digits_value_def digit_nth)
  next
    case False
    with 1 have "digits_value 10 (show_nat (n div 10)) = n div 10" by simp
    with False show ?thesis
      by (subst show_nat.simps) (simp add: digits_value_snoc digit_nth)
  qed
qed

lemma is_digit_not_sep: "is_digit ch \<Longrightarrow> ch \<noteq> CHR ''-'' \<and> ch \<noteq> CHR ''+'' \<and> \<not> is_space ch"
  by (auto simp: is_digit_def is_space_def)

lemma parseInt10_digits:
  assumes "ds \<noteq> []" and "\<forall>ch \<in> set ds. is_digit ch"
  shows "parseInt10 ds = Num (int (digits_value 10 ds))"
proof -
  obtain d r where ds: "ds = d # r" using assms(1) by (cases ds) auto
  with assms(2) have d: "is_digit d" by simp
  then have sr: "sign_and_rest ds = (False, ds)"
    using is_digit_not_sep [OF d] by (simp add: sign_and_rest_def ds)
  have tw: "takeWhile is_digit ds = ds"
    using assms(2) by (simp add: takeWhile_eq_all_conv)
  show ?thesis
    using assms(1) by (simp add: parseInt10_def signed_def Let_def sr tw)
qed

lemma parseInt10_show_nat: "parseInt10 (show_nat n) = Num (int n)"
  using parseInt10_digits [OF show_nat_nonempty show_nat_digits, of n]
  by (simp add: digits_value_show_nat)

lemma split_on_no_sep: "sep \<notin> set a \<Longrightarrow> split_on sep a = [a]"
  by (induction a) auto

lemma split_on_append_sep:
  "sep \<notin> set a \<Longrightarrow> split_on sep (a @ sep # b) = a # split_on sep b"
  by (induction a) auto

lemma show_nat_no_dash: "CHR ''-'' \<notin> set (show_nat n)"
  using show_nat_digits [of n] is_digit_not_sep by blast

lemma replace_first_bytes: "replace_first ''bytes='' [] (''bytes='' @ rest) = rest"
  by simp

lemma range_parts_canonical:
  "CHR ''-'' \<notin> set t \<Longrightarrow>
   range_parts (''bytes='' @ show_nat s @ ''-'' @ t) = [show_nat s, t]"
  unfolding range_parts_def replace_first_bytes
  by (simp add: split_on_append_sep show_nat_no_dash split_on_no_sep)

lemma range_start_canonical:
  assumes "CHR ''-'' \<notin> set t"
  shows "range_start (''bytes='' @ show_nat s @ ''-'' @ t) = Num (int s)"
  unfolding range_start_def range_parts_canonical [OF assms]
  by (simp add: parseInt10_show_nat)

lemma range_end_explicit:
  "range_end L (''bytes='' @ show_nat s @ ''-'' @ show_nat e) = Num (int e)"
  unfolding range_end_def range_parts_canonical [OF show_nat_no_dash]
  by (simp add: parseInt10_show_nat show_nat_nonempty)

lemma range_end_open:
  "range_end L (''bytes='' @ show_nat s @ ''-'') = Num (int L - 1)"
proof -
  have "range_parts (''bytes='' @ show_nat s @ ''-'' @ []) = [show_nat s, []]"
    by (rule range_parts_canonical) simp
  then have "range_parts (''bytes='' @ show_nat s @ ''-'') = [show_nat s, []]"
    by (simp only: append_Nil2)
  then show ?thesis
    unfolding range_end_def by simp
qed


lemmas parse_defs = range_start_def range_end_def range_parts_def parseInt10_def
  sign_and_rest_def signed_def digits_value_def digit_val_def is_digit_def is_space_def

lemma take_drop_map_nth:
  "a + n \<le> length xs \<Longrightarrow> take n (drop a xs) = map (\<lambda>k. xs ! k) [a..<a + n]"
  by (simp add: list_eq_iff_nth_eq)

lemma GET_found:
  assumes "ObjectId_isValid i" "\<not> connectFails env" "\<not> queryFails env"
    "findById db i = Some recording" "bucket_find db (fileId recording) = file # others"
    "rangeValue \<noteq> []"
  shows "GET_recording env db i (Some rangeValue) = range_response recording file rangeValue"
  using assms by (simp add: GET_recording_def)

lemma schema_valid_contentType: "schema_valid r \<Longrightarrow> contentType r \<noteq> []"
  by (auto simp: schema_valid_def startsWith_def)

lemma range_response_in_bounds:
  assumes "gf_length file = length (concat (gf_chunks file))"
    and "schema_valid recording"
    and "range_start rangeValue = Num s" and "range_end (gf_length file) rangeValue = Num e"
    and "0 \<le> s" and "s \<le> e + 1" and "e < int (gf_length file)"
  shows "range_response recording file rangeValue =
     \<lparr>resp_status = 206,
      resp_headers =
        [(''Content-Range'', ''bytes '' @ show_number (Num s) @ ''-'' @ show_number (Num e) @ ''/''
            @ show_nat (gf_length file)),
         (''Accept-Ranges'', ''bytes''),
         (''Content-Length'', show_number (Num (e - s + 1))),
         (''Content-Type'', contentType recording)],
      resp_body = Stream (Inr (map (\<lambda>k. concat (gf_chunks file) ! k) [nat s..<nat (e + 1)]))\<rparr>"
proof -
  have ct: "contentType recording \<noteq> []"
    using assms(2) by (rule schema_valid_contentType)
  have "nat s + nat (e + 1 - s) \<le> length (concat (gf_chunks file))"
    using assms(1,5,6,7) by simp
  then have "take (nat (e + 1 - s)) (drop (nat s) (concat (gf_chunks file)))
      = map (\<lambda>k. concat (gf_chunks file) ! k) [nat s..<nat s + nat (e + 1 - s)]"
    by (rule take_drop_map_nth)
  moreover have "nat s + nat (e + 1 - s) = nat (e + 1)"
    using assms(5,6) by simp
  ultimately have body: "openDownloadStream file (Some (Num s, Num (e + 1)))
      = Inr (map (\<lambda>k. concat (gf_chunks file) ! k) [nat s..<nat (e + 1)])"
    using assms(5,6,7) by (simp add: openDownloadStream_def)
  show ?thesis
    using ct body assms(3,4) by (simp add: range_response_def Let_def)
qed

lemmas id_defs = ObjectId_isValid_def is_hex_digit_def ObjectId_of_def lower_hex_def

lemma sample_found:
  "ObjectId_isValid ''64b7f0c2a1d9e8f7a6b5c4d3''"
  "findById sampleDb ''64b7f0c2a1d9e8f7a6b5c4d3'' = Some sampleRecording"
  "bucket_find sampleDb (fileId sampleRecording) = sampleFile # []"
  by (simp_all add: id_defs findById_def sampleDb_def
      sampleRecording_def bucket_find_def sampleFile_def)

lemma clip_found:
  "ObjectId_isValid ''64B7F0C2A1D9E8F7A6B5C4E1''"
  "findById clipDb ''64B7F0C2A1D9E8F7A6B5C4E1'' = Some clipRecording"
  "bucket_find clipDb (fileId clipRecording) = clipFile # []"
  by (simp_all add: id_defs findById_def clipDb_def sampleRecording_def clipRecording_def
      bucket_find_def sampleFile_def clipFile_def)

lemma noFaults_simps:
  "\<not> connectFails noFaults" "\<not> queryFails noFaults" "\<not> uploadFails noFaults"
  "\<not> saveFails noFaults" "\<not> bucketDeleteFails noFaults" "\<not> recordDeleteFails noFaults"
  by (simp_all add: noFaults_def)

lemma range_response_status: "resp_status (range_response recording file rangeValue) = 206"
  by (simp add: range_response_def Let_def)

lemma range_response_headers:
  "map_of (resp_headers (range_response recording file rangeValue)) ''Content-Range''
     = Some (''bytes '' @ show_number (range_start rangeValue) @ ''-''
          @ show_number (range_end (gf_length file) rangeValue) @ ''/'' @ show_nat (gf_length file))"
  "map_of (resp_headers (range_response recording file rangeValue)) ''Content-Length''
     = Some (show_number (js_add (js_sub (range_end (gf_length file) rangeValue)
          (range_start rangeValue)) (Num 1)))"
  by (simp_all add: range_response_def Let_def)


lemma GET_canonical_in_bounds:
  assumes "ObjectId_isValid i" and "\<not> connectFails env" and "\<not> queryFails env"
    and "findById db i = Some recording"
    and "bucket_find db (fileId recording) = file # others"
    and "gf_length file = length (concat (gf_chunks file))"
    and "schema_valid recording"
    and "range_start rangeValue = Num (int a)" and "range_end (gf_length file) rangeValue = Num (int b)"
    and "rangeValue \<noteq> []" and "a \<le> b" and "b < gf_length file"
  shows "GET_recording env db i (Some rangeValue) =
     \<lparr>resp_status = 206,
      resp_headers =
        [(''Content-Range'', ''bytes '' @ show_nat a @ ''-'' @ show_nat b @ ''/''
            @ show_nat (gf_length file)),
         (''Accept-Ranges'', ''bytes''),
         (''Content-Length'', show_nat (b - a + 1)),
         (''Content-Type'', contentType recording)],
      resp_body = Stream (Inr (map (\<lambda>k. concat (gf_chunks file) ! k) [a..<Suc b]))\<rparr>"
proof -
  have r: "range_response recording file rangeValue =
     \<lparr>resp_status = 206,
      resp_headers =
        [(''Content-Range'', ''bytes '' @ show_number (Num (int a)) @ ''-'' @ show_number (Num (int b))
            @ ''/'' @ show_nat (gf_length file)),
         (''Accept-Ranges'', ''bytes''),
         (''Content-Length'', show_number (Num (int b - int a + 1))),
         (''Content-Type'', contentType recording)],
      resp_body = Stream (Inr (map (\<lambda>k. concat (gf_chunks file) ! k)
                    [nat (int a)..<nat (int b + 1)]))\<rparr>"
    using assms(6,7,8,9) assms(11,12) by (intro range_response_in_bounds) simp_all
  have n: "nat (int b - int a + 1) = b - a + 1" "nat (int b + 1) = Suc b"
    using assms(11) by simp_all
  have p: "\<not> int b - int a + 1 < 0"
    using assms(11) by simp
  show ?thesis
    unfolding GET_found [OF assms(1,2,3,4,5,10)] r
    by (simp add: show_number_def n p)
qed

text \<open>C3. For a stored recording whose file has total length \<open>L\<close> (the length of its
  reassembled content) and a request with a range header from which the handler parses
  start \<open>s\<close> and end \<open>e\<close> (the end being \<open>L - 1\<close> when the header gives none), with the
  interval inside the content (\<open>0 \<le> s \<le> e + 1\<close>, \<open>e < L\<close>): the response has status 206, the
  headers \<open>Content-Range: bytes s-e/L\<close>, \<open>Accept-Ranges: bytes\<close>, \<open>Content-Length\<close> equal to
  \<open>e - s + 1\<close> and the stored content type, and its body is exactly the bytes at the
  positions \<open>s, ..., e\<close> of the content. What is parsed is what the header says: for the
  header \<open>bytes=a-b\<close> in decimal digits with \<open>a \<le> b < L\<close> the response carries
  \<open>Content-Range: bytes a-b/L\<close>, \<open>Content-Length\<close> \<open>b - a + 1\<close> and the bytes at the
  positions \<open>a, ..., b\<close>; for \<open>bytes=a-\<close> the end is \<open>L - 1\<close> and the body runs from
  position \<open>a\<close> to the last byte.\<close>

theorem C3_range_request_partial_content:
  assumes "ObjectId_isValid i" and "\<not> connectFails env" and "\<not> queryFails env"
    and "findById db i = Some recording"
    and "bucket_find db (fileId recording) = file # others"
    and "gf_length file = length (concat (gf_chunks file))"
    and "gf_length file < 2 ^ 53"
    and "schema_valid recording"
    and "rangeValue \<noteq> []"
    and "range_start rangeValue = Num s" and "range_end (gf_length file) rangeValue = Num e"
    and "0 \<le> s" and "s \<le> e + 1" and "e < int (gf_length file)"
    and "a \<le> b" and "b < gf_length file"
  shows "GET_recording env db i (Some rangeValue) =
     \<lparr>resp_status = 206,
      resp_headers =
        [(''Content-Range'', ''bytes '' @ show_number (Num s) @ ''-'' @ show_number (Num e) @ ''/''
            @ show_nat (gf_length file)),
         (''Accept-Ranges'', ''bytes''),
         (''Content-Length'', show_number (Num (e - s + 1))),
         (''Content-Type'', contentType recording)],
      resp_body = Stream (Inr (map (\<lambda>k. concat (gf_chunks file) ! k) [nat s..<nat (e + 1)]))\<rparr>
    \<and> GET_recording env db i (Some (''bytes='' @ show_nat a @ ''-'' @ show_nat b)) =
     \<lparr>resp_status = 206,
      resp_headers =
        [(''Content-Range'', ''bytes '' @ show_nat a @ ''-'' @ show_nat b @ ''/''
            @ show_nat (gf_length file)),
         (''Accept-Ranges'', ''bytes''),
         (''Content-Length'', show_nat (b - a + 1)),
         (''Content-Type'', contentType recording)],
      resp_body = Stream (Inr (map (\<lambda>k. concat (gf_chunks file) ! k) [a..<Suc b]))\<rparr>
    \<and> GET_recording env db i (Some (''bytes='' @ show_nat a @ ''-'')) =
     \<lparr>resp_status = 206,
      resp_headers =
        [(''Content-Range'', ''bytes '' @ show_nat a @ ''-'' @ show_nat (gf_length file - 1) @ ''/''
            @ show_nat (gf_length file)),
         (''Accept-Ranges'', ''bytes''),
         (''Content-Length'', show_nat (gf_length file - 1 - a + 1)),
         (''Content-Type'', contentType recording)],
      resp_body = Stream (Inr (map (\<lambda>k. concat (gf_chunks file) ! k) [a..<gf_length file]))\<rparr>"
proof (intro conjI)
  show "GET_recording env db i (Some rangeValue) =
     \<lparr>resp_status = 206,
      resp_headers =
        [(''Content-Range'', ''bytes '' @ show_number (Num s) @ ''-'' @ show_number (Num e) @ ''/''
            @ show_nat (gf_length file)),
         (''Accept-Ranges'', ''bytes''),
         (''Content-Length'', show_number (Num (e - s + 1))),
         (''Content-Type'', contentType recording)],
      resp_body = Stream (Inr (map (\<lambda>k. concat (gf_chunks file) ! k) [nat s..<nat (e + 1)]))\<rparr>"
    unfolding GET_found [OF assms(1,2,3,4,5,9)]
    using assms(6,8,10,11,12,13,14) by (rule range_response_in_bounds)
next
  have ne: "''bytes='' @ show_nat a @ ''-'' @ show_nat b \<noteq> []"
    by simp
  show "GET_recording env db i (Some (''bytes='' @ show_nat a @ ''-'' @ show_nat b)) =
     \<lparr>resp_status = 206,
      resp_headers =
        [(''Content-Range'', ''bytes '' @ show_nat a @ ''-'' @ show_nat b @ ''/''
            @ show_nat (gf_length file)),
         (''Accept-Ranges'', ''bytes''),
         (''Content-Length'', show_nat (b - a + 1)),
         (''Content-Type'', contentType recording)],
      resp_body = Stream (Inr (map (\<lambda>k. concat (gf_chunks file) ! k) [a..<Suc b]))\<rparr>"
    using assms(1,2,3,4,5,6,8) range_start_canonical [OF show_nat_no_dash]
      range_end_explicit ne assms(15,16)
    by (rule GET_canonical_in_bounds)
next
  have ne: "''bytes='' @ show_nat a @ ''-'' \<noteq> []"
    by simp
  have d: "CHR ''-'' \<notin> set []"
    by simp
  have st: "range_start (''bytes='' @ show_nat a @ ''-'') = Num (int a)"
    using range_start_canonical [OF d, of a] by (simp only: append_Nil2)
  have en: "range_end (gf_length file) (''bytes='' @ show_nat a @ ''-'') = Num (int (gf_length file - 1))"
    using assms(16) by (simp only: range_end_open) simp
  have le: "a \<le> gf_length file - 1" "gf_length file - 1 < gf_length file"
    using assms(15,16) by simp_all
  have "GET_recording env db i (Some (''bytes='' @ show_nat a @ ''-'')) =
     \<lparr>resp_status = 206,
      resp_headers =
        [(''Content-Range'', ''bytes '' @ show_nat a @ ''-'' @ show_nat (gf_length file - 1) @ ''/''
            @ show_nat (gf_length file)),
         (''Accept-Ranges'', ''bytes''),
         (''Content-Length'', show_nat (gf_length file - 1 - a + 1)),
         (''Content-Type'', contentType recording)],
      resp_body = Stream (Inr (map (\<lambda>k. concat (gf_chunks file) ! k) [a..<Suc (gf_length file - 1)]))\<rparr>"
    using assms(1,2,3,4,5,6,8) st en ne le by (rule GET_canonical_in_bounds)
  moreover have "Suc (gf_length file - 1) = gf_length file"
    using assms(16) by simp
  ultimately show "GET_recording env db i (Some (''bytes='' @ show_nat a @ ''-'')) =
     \<lparr>resp_status = 206,
      resp_headers =
        [(''Content-Range'', ''bytes '' @ show_nat a @ ''-'' @ show_nat (gf_length file - 1) @ ''/''
            @ show_nat (gf_length file)),
         (''Accept-Ranges'', ''bytes''),
         (''Content-Length'', show_nat (gf_length file - 1 - a + 1)),
         (''Content-Type'', contentType recording)],
      resp_body = Stream (Inr (map (\<lambda>k. concat (gf_chunks file) ! k) [a..<gf_length file]))\<rparr>"
    by simp
qed

theorem C3_range_scenario_witness:
  "GET_recording noFaults clipDb ''64B7F0C2A1D9E8F7A6B5C4E1'' (Some ''bytes=2-5'') =
     \<lparr>resp_status = 206,
      resp_headers =
        [(''Content-Range'', ''bytes 2-5/10''),
         (''Accept-Ranges'', ''bytes''),
         (''Content-Length'', ''4''),
         (''Content-Type'', ''video/mp4'')],
      resp_body = Stream (Inr [12, 13, 14, 15])\<rparr>
   \<and> GET_recording noFaults clipDb ''64B7F0C2A1D9E8F7A6B5C4E1'' (Some ''bytes=7-8'') =
     \<lparr>resp_status = 206,
      resp_headers =
        [(''Content-Range'', ''bytes 7-8/10''),
         (''Accept-Ranges'', ''bytes''),
         (''Content-Length'', ''2''),
         (''Content-Type'', ''video/mp4'')],
      resp_body = Stream (Inr [17, 18])\<rparr>
   \<and> GET_recording noFaults clipDb ''64B7F0C2A1D9E8F7A6B5C4E1'' (Some ''bytes=7-'') =
     \<lparr>resp_status = 206,
      resp_headers =
        [(''Content-Range'', ''bytes 7-9/10''),
         (''Accept-Ranges'', ''bytes''),
         (''Content-Length'', ''3''),
         (''Content-Type'', ''video/mp4'')],
      resp_body = Stream (Inr [17, 18, 19])\<rparr>
   \<and> GET_recording noFaults sampleDb ''64b7f0c2a1d9e8f7a6b5c4d3'' (Some ''bytes=9990-'') =
     \<lparr>resp_status = 206,
      resp_headers =
        [(''Content-Range'', ''bytes 9990-9999/10000''),
         (''Accept-Ranges'', ''bytes''),
         (''Content-Length'', ''10''),
         (''Content-Type'', ''video/webm'')],
      resp_body = Stream (Inr [7, 7, 7, 7, 7, 7, 7, 7, 7, 7])\<rparr>"
proof -
  have c6: "gf_length clipFile = length (concat (gf_chunks clipFile))"
    and c7: "gf_length clipFile < 2 ^ 53"
    by (simp_all add: clipFile_def)
  have c8: "schema_valid clipRecording"
    by (simp add: schema_valid_def clipRecording_def startsWith_def)
  have c9: "''bytes=2-5'' \<noteq> []"
    by simp
  have c10: "range_start ''bytes=2-5'' = Num 2"
    and c11: "range_end (gf_length clipFile) ''bytes=2-5'' = Num 5"
    by (simp_all add: parse_defs)
  have c12: "(0::int) \<le> 2" and c13: "(2::int) \<le> 5 + 1" and c14: "5 < int (gf_length clipFile)"
    and c15: "(7::nat) \<le> 8" and c16: "8 < gf_length clipFile"
    by (simp_all add: clipFile_def)
  have s6: "gf_length sampleFile = length (concat (gf_chunks sampleFile))"
    and s7: "gf_length sampleFile < 2 ^ 53"
    by (simp_all add: sampleFile_def)
  have s8: "schema_valid sampleRecording"
    by (simp add: schema_valid_def sampleRecording_def startsWith_def)
  have s9: "''bytes=9990-'' \<noteq> []"
    by simp
  have s10: "range_start ''bytes=9990-'' = Num 9990"
    and s11: "range_end (gf_length sampleFile) ''bytes=9990-'' = Num 9999"
    by (simp_all add: parse_defs sampleFile_def)
  have s12: "(0::int) \<le> 9990" and s13: "(9990::int) \<le> 9999 + 1"
    and s14: "9999 < int (gf_length sampleFile)"
    and s15: "(9990::nat) \<le> 9999" and s16: "9999 < gf_length sampleFile"
    by (simp_all add: sampleFile_def)
  from C3_range_request_partial_content [OF clip_found(1) noFaults_simps(1,2) clip_found(2,3)
      c6 c7 c8 c9 c10 c11 c12 c13 c14 c15 c16]
    C3_range_request_partial_content [OF sample_found(1) noFaults_simps(1,2) sample_found(2,3)
      s6 s7 s8 s9 s10 s11 s12 s13 s14 s15 s16]
  show ?thesis
    by (simp add: show_number_def show_nat.simps clipFile_def clipRecording_def sampleFile_def
        sampleRecording_def upt_rec_numeral)
qed

text \<open>C7, as stated, fails. On the 10,000-byte recording, a range whose end lies beyond the
  content is answered with 206 and the end as requested, and a range whose start is not a
  number is answered with 206 as well.\<close>

theorem C7_no_client_error_no_clamp:
  "resp_status (GET_recording noFaults sampleDb ''64b7f0c2a1d9e8f7a6b5c4d3''
      (Some ''bytes=0-99999'')) = 206
   \<and> map_of (resp_headers (GET_recording noFaults sampleDb ''64b7f0c2a1d9e8f7a6b5c4d3''
        (Some ''bytes=0-99999''))) ''Content-Range'' = Some ''bytes 0-99999/10000''
   \<and> resp_status (GET_recording noFaults sampleDb ''64b7f0c2a1d9e8f7a6b5c4d3''
        (Some ''bytes=abc-'')) = 206
   \<and> map_of (resp_headers (GET_recording noFaults sampleDb ''64b7f0c2a1d9e8f7a6b5c4d3''
        (Some ''bytes=abc-''))) ''Content-Range'' = Some ''bytes NaN-9999/10000''"
proof -
  have g: "\<And>r. r \<noteq> [] \<Longrightarrow> GET_recording noFaults sampleDb ''64b7f0c2a1d9e8f7a6b5c4d3'' (Some r)
      = range_response sampleRecording sampleFile r"
    by (rule GET_found [OF sample_found(1) noFaults_simps(1,2) sample_found(2,3)])
  have l: "gf_length sampleFile = 10000"
    by (simp add: sampleFile_def)
  have p1: "range_start ''bytes=0-99999'' = Num 0" "range_end 10000 ''bytes=0-99999'' = Num 99999"
    "range_start ''bytes=abc-'' = NaN" "range_end 10000 ''bytes=abc-'' = Num 9999"
    by (simp_all add: parse_defs)
  show ?thesis
    by (simp add: g range_response_status range_response_headers l p1 show_number_def
        show_nat.simps)
qed

text \<open>C7, amended. The handler neither validates nor clamps. For a stored recording and any
  non-empty range header, malformed or out of bounds included, the response has status
  206, \<open>Content-Range\<close> is \<open>bytes start-end/L\<close> and \<open>Content-Length\<close> is \<open>end - start + 1\<close>,
  both written from the parsed values as they are (\<open>NaN\<close> for a part that is not a number).
  In particular the header \<open>bytes=s-e\<close> in decimal digits is answered with
  \<open>Content-Range: bytes s-e/L\<close> and \<open>Content-Length\<close> \<open>e - s + 1\<close> whatever \<open>s\<close> and \<open>e\<close> are
  (within the exact integers): an end at or beyond the total length is not clamped, and a
  start beyond the length or after the end is not refused.\<close>

theorem C7_range_not_validated:
  assumes "ObjectId_isValid i" and "\<not> connectFails env" and "\<not> queryFails env"
    and "findById db i = Some recording"
    and "bucket_find db (fileId recording) = file # others"
    and "rangeValue \<noteq> []"
    and "s < 2 ^ 53" and "e < 2 ^ 53"
  shows "resp_status (GET_recording env db i (Some rangeValue)) = 206
    \<and> map_of (resp_headers (GET_recording env db i (Some rangeValue))) ''Content-Range''
        = Some (''bytes '' @ show_number (range_start rangeValue) @ ''-''
            @ show_number (range_end (gf_length file) rangeValue) @ ''/''
            @ show_nat (gf_length file))
    \<and> map_of (resp_headers (GET_recording env db i (Some rangeValue))) ''Content-Length''
        = Some (show_number (js_add (js_sub (range_end (gf_length file) rangeValue)
            (range_start rangeValue)) (Num 1)))
    \<and> resp_status (GET_recording env db i (Some (''bytes='' @ show_nat s @ ''-'' @ show_nat e))) = 206
    \<and> map_of (resp_headers (GET_recording env db i
          (Some (''bytes='' @ show_nat s @ ''-'' @ show_nat e)))) ''Content-Range''
        = Some (''bytes '' @ show_nat s @ ''-'' @ show_nat e @ ''/'' @ show_nat (gf_length file))
    \<and> map_of (resp_headers (GET_recording env db i
          (Some (''bytes='' @ show_nat s @ ''-'' @ show_nat e)))) ''Content-Length''
        = Some (show_number (Num (int e - int s + 1)))"
proof -
  have ne: "''bytes='' @ show_nat s @ ''-'' @ show_nat e \<noteq> []"
    by simp
  have g: "GET_recording env db i (Some rangeValue) = range_response recording file rangeValue"
    using assms(1-6) by (rule GET_found)
  have c: "GET_recording env db i (Some (''bytes='' @ show_nat s @ ''-'' @ show_nat e))
      = range_response recording file (''bytes='' @ show_nat s @ ''-'' @ show_nat e)"
    using assms(1-5) ne by (rule GET_found)
  have n: "show_number (Num (int s)) = show_nat s" "show_number (Num (int e)) = show_nat e"
    by (simp_all add: show_number_def)
  show ?thesis
    unfolding g c range_response_status range_response_headers
      range_start_canonical [OF show_nat_no_dash] range_end_explicit n
    by simp
qed

theorem C7_range_not_validated_witness:
  "resp_status (GET_recording noFaults sampleDb ''64b7f0c2a1d9e8f7a6b5c4d3''
      (Some ''bytes=abc-'')) = 206
   \<and> map_of (resp_headers (GET_recording noFaults sampleDb ''64b7f0c2a1d9e8f7a6b5c4d3''
        (Some ''bytes=abc-''))) ''Content-Range'' = Some ''bytes NaN-9999/10000''
   \<and> map_of (resp_headers (GET_recording noFaults sampleDb ''64b7f0c2a1d9e8f7a6b5c4d3''
        (Some ''bytes=abc-''))) ''Content-Length'' = Some ''NaN''
   \<and> resp_status (GET_recording noFaults sampleDb ''64b7f0c2a1d9e8f7a6b5c4d3''
        (Some ''bytes=5-20000'')) = 206
   \<and> map_of (resp_headers (GET_recording noFaults sampleDb ''64b7f0c2a1d9e8f7a6b5c4d3''
        (Some ''bytes=5-20000''))) ''Content-Range'' = Some ''bytes 5-20000/10000''
   \<and> map_of (resp_headers (GET_recording noFaults sampleDb ''64b7f0c2a1d9e8f7a6b5c4d3''
        (Some ''bytes=5-20000''))) ''Content-Length'' = Some ''19996''
   \<and> resp_status (GET_recording noFaults sampleDb ''64b7f0c2a1d9e8f7a6b5c4d3''
        (Some ''bytes=20000-'')) = 206
   \<and> map_of (resp_headers (GET_recording noFaults sampleDb ''64b7f0c2a1d9e8f7a6b5c4d3''
        (Some ''bytes=20000-''))) ''Content-Range'' = Some ''bytes 20000-9999/10000''
   \<and> map_of (resp_headers (GET_recording noFaults sampleDb ''64b7f0c2a1d9e8f7a6b5c4d3''
        (Some ''bytes=20000-''))) ''Content-Length'' = Some ''-10000''
   \<and> resp_status (GET_recording noFaults sampleDb ''64b7f0c2a1d9e8f7a6b5c4d3''
        (Some ''bytes=5-2'')) = 206
   \<and> map_of (resp_headers (GET_recording noFaults sampleDb ''64b7f0c2a1d9e8f7a6b5c4d3''
        (Some ''bytes=5-2''))) ''Content-Range'' = Some ''bytes 5-2/10000''
   \<and> map_of (resp_headers (GET_recording noFaults sampleDb ''64b7f0c2a1d9e8f7a6b5c4d3''
        (Some ''bytes=5-2''))) ''Content-Length'' = Some ''-2''"
proof -
  have h1: "''bytes=abc-'' \<noteq> []" and h2: "''bytes=20000-'' \<noteq> []"
    by simp_all
  have b1: "(5::nat) < 2 ^ 53" and b2: "(20000::nat) < 2 ^ 53" and b3: "(2::nat) < 2 ^ 53"
    by simp_all
  have p: "range_start ''bytes=abc-'' = NaN" "range_end 10000 ''bytes=abc-'' = Num 9999"
    "range_start ''bytes=20000-'' = Num 20000" "range_end 10000 ''bytes=20000-'' = Num 9999"
    by (simp_all add: parse_defs)
  have l: "gf_length sampleFile = 10000"
    by (simp add: sampleFile_def)
  from C7_range_not_validated [OF sample_found(1) noFaults_simps(1,2) sample_found(2,3) h1 b1 b2]
    C7_range_not_validated [OF sample_found(1) noFaults_simps(1,2) sample_found(2,3) h2 b1 b3]
  show ?thesis
    by (simp add: p l show_number_def show_nat.simps)
qed

subsection \<open>Deleting and uploading\<close>

lemma concat_split_chunks: "0 < n \<Longrightarrow> concat (split_chunks n xs) = xs"
proof (induction n xs rule: split_chunks.induct)
  case (1 n xs)
  show ?case
  proof (cases "xs = []")
    case True
    then have "split_chunks n xs = []"
      by (subst split_chunks.simps) simp
    with True show ?thesis by simp
  next
    case False
    with 1 have "split_chunks n xs = take n xs # split_chunks n (drop n xs)"
      by (subst split_chunks.simps) simp
    with 1 False show ?thesis by simp
  qed
qed

lemma find_filter_neg: "find P (filter (\<lambda>x. \<not> P x) xs) = None"
  by (induction xs) simp_all

lemma filter_filter_neg: "filter P (filter (\<lambda>x. \<not> P x) xs) = []"
  by (induction xs) simp_all

lemma DELETE_found:
  assumes "ObjectId_isValid i" "\<not> connectFails env" "\<not> queryFails env"
    "findById db i = Some recording"
  shows "DELETE_recording env db i =
     (case bucket_delete env db (fileId recording) of
        Inl err \<Rightarrow> (json_error 500 ''Failed to delete recording'', db)
      | Inr db1 \<Rightarrow>
          (case findByIdAndDelete env db1 i of
             Inl (err, db2) \<Rightarrow> (json_error 500 ''Failed to delete recording'', db2)
           | Inr db2 \<Rightarrow>
               (\<lparr>resp_status = 200, resp_headers = [],
                 resp_body = Json [(''message'', ''Recording deleted successfully'')]\<rparr>,
                db2)))"
  using assms by (simp add: DELETE_recording_def)

lemma bucket_delete_fails:
  assumes "bucketDeleteFails env \<or> bucket_find db fid = []"
  shows "bucket_delete env db fid
     = Inl (if bucketDeleteFails env then StorageFailure else FileNotFound)"
  using assms by (auto simp: bucket_delete_def)

lemma bucket_delete_ok:
  assumes "\<not> bucketDeleteFails env" "bucket_find db fid \<noteq> []"
  shows "bucket_delete env db fid
     = Inr (db\<lparr>bucket_files := filter (\<lambda>f. gf_id f \<noteq> fid) (bucket_files db)\<rparr>)"
  using assms by (simp add: bucket_delete_def)

lemma hook_after_bucket_delete:
  assumes "findById db i = Some recording"
  shows "pre_findOneAndDelete env
           (db\<lparr>bucket_files := filter (\<lambda>f. gf_id f \<noteq> fileId recording) (bucket_files db)\<rparr>) i
         = db\<lparr>bucket_files := filter (\<lambda>f. gf_id f \<noteq> fileId recording) (bucket_files db)\<rparr>"
  using assms
  by (simp add: pre_findOneAndDelete_def findById_def bucket_delete_def bucket_find_def
      filter_filter_neg)

text \<open>C4. Deleting an existing recording with a valid id. If the deletion of the chunk-set
  fails, because the store fails or because the chunk-set is not in the bucket, the
  response has status 500 with the deletion error, the database is unchanged and the
  record is still found. If the chunk-set is there and both deletions succeed, the
  response has status 200 with a message, and neither the chunk-set nor the record
  remains. The chunk-set goes first: if it is deleted and the deletion of the record then
  fails, the response has status 500 with the chunk-set gone and the record still there.\<close>

theorem C4_delete_chunks_then_record:
  assumes "ObjectId_isValid iF" and "\<not> connectFails envF" and "\<not> queryFails envF"
    and "findById dbF iF = Some recordingF"
    and "bucketDeleteFails envF \<or> bucket_find dbF (fileId recordingF) = []"
    and "ObjectId_isValid i" and "findById db i = Some recording"
    and "bucket_find db (fileId recording) \<noteq> []"
    and "\<not> connectFails envS" and "\<not> queryFails envS" and "\<not> bucketDeleteFails envS"
    and "\<not> recordDeleteFails envS"
    and "\<not> connectFails envR" and "\<not> queryFails envR" and "\<not> bucketDeleteFails envR"
    and "recordDeleteFails envR"
  shows "resp_status (fst (DELETE_recording envF dbF iF)) = 500
    \<and> resp_body (fst (DELETE_recording envF dbF iF)) = Json [(''error'', ''Failed to delete recording'')]
    \<and> snd (DELETE_recording envF dbF iF) = dbF
    \<and> findById (snd (DELETE_recording envF dbF iF)) iF = Some recordingF
    \<and> resp_status (fst (DELETE_recording envS db i)) = 200
    \<and> resp_body (fst (DELETE_recording envS db i))
        = Json [(''message'', ''Recording deleted successfully'')]
    \<and> bucket_find (snd (DELETE_recording envS db i)) (fileId recording) = []
    \<and> findById (snd (DELETE_recording envS db i)) i = None
    \<and> resp_status (fst (DELETE_recording envR db i)) = 500
    \<and> bucket_find (snd (DELETE_recording envR db i)) (fileId recording) = []
    \<and> findById (snd (DELETE_recording envR db i)) i = Some recording"
proof -
  let ?db1 = "db\<lparr>bucket_files := filter (\<lambda>f. gf_id f \<noteq> fileId recording) (bucket_files db)\<rparr>"
  have F: "DELETE_recording envF dbF iF = (json_error 500 ''Failed to delete recording'', dbF)"
    by (simp add: DELETE_found [OF assms(1,2,3,4)] bucket_delete_fails [OF assms(5)])
  have S: "DELETE_recording envS db i
      = (\<lparr>resp_status = 200, resp_headers = [],
           resp_body = Json [(''message'', ''Recording deleted successfully'')]\<rparr>,
         ?db1\<lparr>recordings := filter (\<lambda>r. rid r \<noteq> ObjectId_of i) (recordings db)\<rparr>)"
    using assms(10,12)
    by (simp add: DELETE_found [OF assms(6,9,10,7)] bucket_delete_ok [OF assms(11,8)]
        findByIdAndDelete_def hook_after_bucket_delete [OF assms(7)])
  have R: "DELETE_recording envR db i = (json_error 500 ''Failed to delete recording'', ?db1)"
    using assms(14,16)
    by (simp add: DELETE_found [OF assms(6,13,14,7)] bucket_delete_ok [OF assms(15,8)]
        findByIdAndDelete_def hook_after_bucket_delete [OF assms(7)])
  show ?thesis
    unfolding F S R using assms(4,7)
    by (simp add: json_error_def findById_def bucket_find_def filter_filter_neg find_filter_neg)
qed

theorem C4_delete_witness:
  "resp_status (fst (DELETE_recording (noFaults\<lparr>bucketDeleteFails := True\<rparr>) sampleDb
        ''64b7f0c2a1d9e8f7a6b5c4d3'')) = 500
   \<and> findById (snd (DELETE_recording (noFaults\<lparr>bucketDeleteFails := True\<rparr>) sampleDb
        ''64b7f0c2a1d9e8f7a6b5c4d3'')) ''64b7f0c2a1d9e8f7a6b5c4d3'' = Some sampleRecording
   \<and> resp_status (fst (DELETE_recording noFaults noChunksDb ''64b7f0c2a1d9e8f7a6b5c4d3'')) = 500
   \<and> snd (DELETE_recording noFaults noChunksDb ''64b7f0c2a1d9e8f7a6b5c4d3'') = noChunksDb
   \<and> findById (snd (DELETE_recording noFaults noChunksDb ''64b7f0c2a1d9e8f7a6b5c4d3''))
        ''64b7f0c2a1d9e8f7a6b5c4d3'' = Some sampleRecording
   \<and> resp_status (fst (DELETE_recording noFaults sampleDb ''64b7f0c2a1d9e8f7a6b5c4d3'')) = 200
   \<and> bucket_find (snd (DELETE_recording noFaults sampleDb ''64b7f0c2a1d9e8f7a6b5c4d3''))
        ''64b7f0c2a1d9e8f7a6b5c4d4'' = []
   \<and> findById (snd (DELETE_recording noFaults sampleDb ''64b7f0c2a1d9e8f7a6b5c4d3''))
        ''64b7f0c2a1d9e8f7a6b5c4d3'' = None
   \<and> resp_status (fst (DELETE_recording (noFaults\<lparr>recordDeleteFails := True\<rparr>) sampleDb
        ''64b7f0c2a1d9e8f7a6b5c4d3'')) = 500
   \<and> findById (snd (DELETE_recording (noFaults\<lparr>recordDeleteFails := True\<rparr>) sampleDb
        ''64b7f0c2a1d9e8f7a6b5c4d3'')) ''64b7f0c2a1d9e8f7a6b5c4d3'' = Some sampleRecording
   \<and> bucket_find (snd (DELETE_recording (noFaults\<lparr>recordDeleteFails := True\<rparr>) sampleDb
        ''64b7f0c2a1d9e8f7a6b5c4d3'')) ''64b7f0c2a1d9e8f7a6b5c4d4'' = []"
proof -
  let ?F = "noFaults\<lparr>bucketDeleteFails := True\<rparr>"
  let ?R = "noFaults\<lparr>recordDeleteFails := True\<rparr>"
  have f: "\<not> connectFails ?F" "\<not> queryFails ?F"
    and f5: "bucketDeleteFails ?F \<or> bucket_find sampleDb (fileId sampleRecording) = []"
    by (simp_all add: noFaults_def)
  have m4: "findById noChunksDb ''64b7f0c2a1d9e8f7a6b5c4d3'' = Some sampleRecording"
    by (simp add: findById_def noChunksDb_def sampleRecording_def id_defs)
  have m5: "bucketDeleteFails noFaults \<or> bucket_find noChunksDb (fileId sampleRecording) = []"
    by (simp add: bucket_find_def noChunksDb_def)
  have s: "bucket_find sampleDb (fileId sampleRecording) \<noteq> []"
    by (simp add: sample_found(3))
  have r: "\<not> connectFails ?R" "\<not> queryFails ?R" "\<not> bucketDeleteFails ?R" "recordDeleteFails ?R"
    by (simp_all add: noFaults_def)
  have fid: "fileId sampleRecording = ''64b7f0c2a1d9e8f7a6b5c4d4''"
    by (simp add: sampleRecording_def)
  from C4_delete_chunks_then_record [OF sample_found(1) f sample_found(2) f5
      sample_found(1,2) s noFaults_simps(1,2,5,6) r]
    C4_delete_chunks_then_record [OF sample_found(1) noFaults_simps(1,2) m4 m5
      sample_found(1,2) s noFaults_simps(1,2,5,6) r]
  show ?thesis
    by (simp add: fid sample_found(2) m4)
qed

lemma POST_valid_file:
  assumes "form_recording form = Some file" "startsWith (file_type file) ''video/''"
    "length (file_bytes file) \<le> maxSize" "\<not> connectFails env"
  shows "POST_recordings env g db form =
     (if uploadFails env then (json_error 500 ''Failed to upload recording'', db)
      else
        case save env (bucket_put db (newFileId g) (POST_filename g) file)
               (new_Recording g form file) of
          Inl err \<Rightarrow> (json_error 500 ''Failed to upload recording'',
                       bucket_put db (newFileId g) (POST_filename g) file)
        | Inr db2 \<Rightarrow>
            (\<lparr>resp_status = 200, resp_headers = [],
              resp_body = Json [(''message'', ''Recording uploaded successfully''),
                                (''id'', newRecordId g),
                                (''url'', ''/api/recordings/'' @ newRecordId g)]\<rparr>,
             db2))"
  using assms by (simp add: POST_recordings_def Let_def)

lemma save_duration_over_max: "180 < duration r \<Longrightarrow> save env db r = Inl ValidationError"
  by (simp add: save_def schema_valid_def)

text \<open>C10. An upload with a video file of allowed size, the new file id being unused. The
  binary is written to the bucket before the record is saved: whenever the save then
  fails, for whatever reason, the response has status 500 with the upload error, the
  written file (holding exactly the uploaded bytes) stays in the bucket, the records are
  unchanged and none of them refers to that file. A declared duration that parses to
  more than 180 is such a reason: the schema refuses the record. If the write itself
  fails, the response has status 500 and nothing at all is stored.\<close>

theorem C10_failed_save_leaves_orphan_chunks:
  assumes "form_recording form = Some file" and "startsWith (file_type file) ''video/''"
    and "length (file_bytes file) \<le> maxSize"
    and "\<not> connectFails env" and "\<not> uploadFails env"
    and "save env (bucket_put db (newFileId g) (POST_filename g) file)
           (new_Recording g form file) = Inl err"
    and "filter (\<lambda>r. fileId r = newFileId g) (recordings db) = []"
    and "bucket_find db (newFileId g) = []"
    and "\<not> connectFails envU" and "uploadFails envU"
    and "parseInt (field_string (form_duration form')) = Num d" and "180 < d"
  shows "resp_status (fst (POST_recordings env g db form)) = 500
    \<and> resp_body (fst (POST_recordings env g db form)) = Json [(''error'', ''Failed to upload recording'')]
    \<and> map (\<lambda>f. concat (gf_chunks f)) (bucket_find (snd (POST_recordings env g db form)) (newFileId g))
        = [file_bytes file]
    \<and> recordings (snd (POST_recordings env g db form)) = recordings db
    \<and> filter (\<lambda>r. fileId r = newFileId g) (recordings (snd (POST_recordings env g db form))) = []
    \<and> resp_status (fst (POST_recordings envU g db form)) = 500
    \<and> snd (POST_recordings envU g db form) = db
    \<and> save env' db' (new_Recording g' form' file') = Inl ValidationError"
proof -
  have U: "POST_recordings envU g db form = (json_error 500 ''Failed to upload recording'', db)"
    using assms(10) by (simp add: POST_valid_file [OF assms(1,2,3,9)])
  have P: "POST_recordings env g db form
      = (json_error 500 ''Failed to upload recording'',
         bucket_put db (newFileId g) (POST_filename g) file)"
    using assms(5,6) by (simp add: POST_valid_file [OF assms(1,2,3,4)])
  have c: "concat (split_chunks chunkSizeBytes (file_bytes file)) = file_bytes file"
    by (rule concat_split_chunks) (simp add: chunkSizeBytes_def)
  have v: "save env' db' (new_Recording g' form' file') = Inl ValidationError"
    using assms(11,12) by (intro save_duration_over_max) (simp add: new_Recording_def)
  show ?thesis
    unfolding P U using assms(7,8) c v
    by (simp add: json_error_def bucket_put_def bucket_find_def)
qed

theorem C10_orphan_witness:
  "resp_status (fst (POST_recordings noFaults sampleGenerated sampleDb sampleForm)) = 500
   \<and> map (\<lambda>f. concat (gf_chunks f))
        (bucket_find (snd (POST_recordings noFaults sampleGenerated sampleDb sampleForm))
           ''64b7f0c2a1d9e8f7a6b5c4d5'') = [[1, 2, 3]]
   \<and> recordings (snd (POST_recordings noFaults sampleGenerated sampleDb sampleForm))
        = [sampleRecording]
   \<and> resp_status (fst (POST_recordings (noFaults\<lparr>saveFails := True\<rparr>) sampleGenerated sampleDb
        shortForm)) = 500
   \<and> map (\<lambda>f. concat (gf_chunks f))
        (bucket_find (snd (POST_recordings (noFaults\<lparr>saveFails := True\<rparr>) sampleGenerated sampleDb
           shortForm)) ''64b7f0c2a1d9e8f7a6b5c4d5'') = [[1, 2, 3]]
   \<and> recordings (snd (POST_recordings (noFaults\<lparr>saveFails := True\<rparr>) sampleGenerated sampleDb
        shortForm)) = [sampleRecording]
   \<and> snd (POST_recordings (noFaults\<lparr>uploadFails := True\<rparr>) sampleGenerated sampleDb sampleForm)
        = sampleDb"
proof -
  let ?file = "\<lparr>file_name = ''clip.webm'', file_type = ''video/webm'', file_bytes = [1, 2, 3]\<rparr>"
  let ?S = "noFaults\<lparr>saveFails := True\<rparr>"
  have h1: "form_recording sampleForm = Some ?file" and k1: "form_recording shortForm = Some ?file"
    by (simp_all add: sampleForm_def shortForm_def)
  have h2: "startsWith (file_type ?file) ''video/''"
    by (simp add: startsWith_def)
  have h3: "length (file_bytes ?file) \<le> maxSize"
    by (simp add: maxSize_def)
  have d200: "parseInt (field_string (form_duration sampleForm)) = Num 200"
    by (simp add: sampleForm_def field_string_def parseInt_def sign_and_rest_def signed_def
        digits_value_def digit_val_def is_digit_def is_space_def)
  have h7: "(180::int) < 200"
    by simp
  have h6: "save noFaults (bucket_put sampleDb (newFileId sampleGenerated)
        (POST_filename sampleGenerated) ?file) (new_Recording sampleGenerated sampleForm ?file)
      = Inl ValidationError"
    by (rule save_duration_over_max) (simp add: new_Recording_def d200)
  have k6: "save ?S (bucket_put sampleDb (newFileId sampleGenerated)
        (POST_filename sampleGenerated) ?file) (new_Recording sampleGenerated shortForm ?file)
      = Inl StorageFailure"
    by (simp add: save_def schema_valid_def new_Recording_def shortForm_def trim_def
        is_space_def startsWith_def POST_filename_def noFaults_def Let_def
        field_string_def parseInt_def sign_and_rest_def signed_def digits_value_def
        digit_val_def is_digit_def)
  have s: "\<not> connectFails ?S" "\<not> uploadFails ?S"
    by (simp_all add: noFaults_def)
  have h8: "filter (\<lambda>r. fileId r = newFileId sampleGenerated) (recordings sampleDb) = []"
    by (simp add: sampleGenerated_def sampleDb_def sampleRecording_def)
  have h9: "bucket_find sampleDb (newFileId sampleGenerated) = []"
    by (simp add: sampleGenerated_def sampleDb_def bucket_find_def sampleFile_def)
  have h10: "\<not> connectFails (noFaults\<lparr>uploadFails := True\<rparr>)"
    and h11: "uploadFails (noFaults\<lparr>uploadFails := True\<rparr>)"
    by (simp_all add: noFaults_def)
  from C10_failed_save_leaves_orphan_chunks [OF h1 h2 h3 noFaults_simps(1,3) h6 h8 h9 h10 h11 d200 h7]
    C10_failed_save_leaves_orphan_chunks [OF k1 h2 h3 s k6 h8 h9 h10 h11 d200 h7]
  show ?thesis
    by (simp add: sampleGenerated_def sampleDb_def)
qed

end
